theory Spec2Isabelle
  imports Complex_Main
begin

section \<open>Python values, exceptions and effects\<close>

text \<open>
  The exceptions the two modules can raise from their own code.  \<open>ValueError\<close> carries
  its message.  \<open>UnboundLocalError\<close> carries the name of the local variable that is read
  before any assignment to it was executed; \<open>AttributeError\<close> is what a method call on a
  \<open>str\<close> raises.
\<close>

datatype error =
    ValueError string
  | UnboundLocalError string
  | AttributeError string
  | ZeroDivisionError
  | IndexError

text \<open>
  A computation with effects returns the trace of the effects it performed, in order, and
  either the exception that ended it (\<open>Inl\<close>) or its value (\<open>Inr\<close>).  When a statement
  raises, the effects performed before it stay in the trace.
\<close>

definition bind_ev ::
  "'e list \<times> (error + 'a) \<Rightarrow> ('a \<Rightarrow> 'e list \<times> (error + 'b)) \<Rightarrow> 'e list \<times> (error + 'b)" where
  "bind_ev m k =
     (case m of
        (es, Inl e) \<Rightarrow> (es, Inl e)
      | (es, Inr x) \<Rightarrow> (case k x of (es', r) \<Rightarrow> (es @ es', r)))"

text \<open>Python's \<open>sub in s\<close> on strings.\<close>

fun contains :: "string \<Rightarrow> string \<Rightarrow> bool" where
  "contains [] sub = (sub = [])"
| "contains (c # cs) sub = (take (length sub) (c # cs) = sub \<or> contains cs sub)"

text \<open>Python's \<open>str\<close> of an integer, as an f-string prints it.\<close>

fun str_nat :: "nat \<Rightarrow> string" where
  "str_nat n =
     (if n < 10 then [char_of (48 + n)]
      else str_nat (n div 10) @ [char_of (48 + n mod 10)])"

definition str_int :: "int \<Rightarrow> string" where
  "str_int i = (if i < 0 then CHR ''-'' # str_nat (nat (- i)) else str_nat (nat i))"

section \<open>training_logic.py: the Trainer base class\<close>

text \<open>
  What the constructor reads from outside the module: the Horovod rank, local rank and
  size of the process, the device lists that \<open>list_devices\<close> returns, the constant
  \<open>MODELS\<close>, the message of the error of \<open>checkarg_model\<close>, and the product of a Python
  float by an int (\<open>'f\<close> is the type of floats).
\<close>

record 'f env =
  hvd_rank :: int
  hvd_local_rank :: int
  hvd_size :: int
  gpu_devices :: "string list"
  cpu_devices :: "string list"
  MODELS :: "string list"
  model_not_recognized_msg :: "string \<Rightarrow> string list \<Rightarrow> string"
  float_times_int :: "'f \<Rightarrow> int \<Rightarrow> 'f"

datatype loss_fn =
    MeanAbsoluteError
  | MeanSquaredError
  | Dssim
  | Dssim_mae
  | Dssim_mse
  | Dssim_mae_mse

datatype 'f learning_rate =
    LRFloat 'f
  | LRInt int
  | LRTuple "'f list"
  | PiecewiseConstantDecay "'f option" 'f 'f

datatype callback =
    EarlyStopping int
  | PlotLossesKerasTF
  | BroadcastGlobalVariablesCallback int
  | ModelCheckpoint string

datatype 'f event =
    HvdInit
  | SetGpuMemoryGrowth
  | SetVisibleGpus int
  | ListDevices bool
  | DataGenerator string int
  | BuildModel string
  | ModelSummary
  | MakeDirs string
  | Compile "'f learning_rate" loss_fn
  | Fit int "int option" "callback list" int
  | Evaluate "int option" int
  | PrintScore
  | PlotHistory "string option"
  | Show
  | ModelSave string

text \<open>
  The keyword arguments of \<open>SupervisedTrainer.__init__\<close>, under their names.  \<open>verbose\<close>
  is an int (\<open>True\<close> is 1 and \<open>False\<close> is 0, as Python compares them); the three static
  inputs and the predictors are kept as what the code reads of them: whether they are
  None, the length of the tuple, the last dimension of the training array.
\<close>

record 'f config =
  model :: string
  loss :: string
  batch_size :: int
  device :: string
  gpu_memory_growth :: bool
  use_multiprocessing :: bool
  model_list :: "string list option"
  verbose :: int
  data_train_channels :: int
  predictors_train :: "nat option"
  topography :: bool
  landocean :: bool
  scale :: int
  patch_size :: "int option"
  time_window :: "int option"
  epochs :: int
  steps_per_epoch :: "int option"
  validation_steps :: "int option"
  test_steps :: "int option"
  learning_rate :: "'f learning_rate"
  lr_decay_after :: "'f option"
  early_stopping :: bool
  patience :: int
  plot :: string
  show_plot :: bool
  save_plot :: bool
  save :: bool
  save_path :: "string option"
  savecheckpoint_path :: "string option"

text \<open>
  The object: the arguments as attributes, and the attributes the constructors compute.
  \<open>self.model\<close> is a name until \<open>setup_model\<close> replaces it by a network, which
  \<open>built_model\<close> holds (the name of the architecture built and its channels).
\<close>

record 'f trainer = "'f config" +
  global_batch_size :: int
  running_on_first_worker :: bool
  lossf :: loss_fn
  built_model :: "(string \<times> int \<times> int option) option"

text \<open>
  Modelled from the spec: \<open>checkarg_model\<close> of \<open>utils.py\<close>, which is not among the
  sources.  An unrecognized architecture name is a configuration error; a recognized
  one is the architecture selected.
\<close>

definition checkarg_model :: "'f env \<Rightarrow> string \<Rightarrow> string list \<Rightarrow> error + string" where
  "checkarg_model env m lst =
     (if m \<in> set lst then Inr m
      else Inl (ValueError (model_not_recognized_msg env m lst)))"

definition choose_loss :: "string \<Rightarrow> error + loss_fn" where
  "choose_loss l =
     (if l = ''mae'' then Inr MeanAbsoluteError
      else if l = ''mse'' then Inr MeanSquaredError
      else if l = ''dssim'' then Inr Dssim
      else if l = ''dssim_mae'' then Inr Dssim_mae
      else if l = ''dssim_mse'' then Inr Dssim_mse
      else if l = ''dssim_mae_mse'' then Inr Dssim_mae_mse
      else Inl (ValueError ''`loss` not recognized''))"

text \<open>
  The device block of \<open>Trainer.__init__\<close>: the effects and the list of devices.  What
  the constructor prints when \<open>verbose\<close> is 1 or 2 is left out of the trace.
\<close>

definition setup_devices :: "'f env \<Rightarrow> 'f config \<Rightarrow> 'f event list \<times> (error + string list)" where
  "setup_devices env c =
     (if device c = ''GPU'' then
        ((if gpu_memory_growth c then [SetGpuMemoryGrowth] else [])
           @ [SetVisibleGpus (hvd_local_rank env), ListDevices True],
         Inr (gpu_devices env))
      else if device c = ''CPU'' then ([ListDevices False], Inr (cpu_devices env))
      else ([], Inl (ValueError ''device not recognized'')))"

definition first_worker :: "'f env \<Rightarrow> string \<Rightarrow> bool" where
  "first_worker env d = ((d = ''GPU'' \<and> hvd_rank env = 0) \<or> d = ''CPU'')"

definition Trainer_init :: "'f env \<Rightarrow> 'f config \<Rightarrow> 'f event list \<times> (error + 'f trainer)" where
  "Trainer_init env c =
     bind_ev ([HvdInit], Inr ()) (\<lambda>_.
     bind_ev (setup_devices env c) (\<lambda>devices.
       let n_devices = int (length devices);
           batch_size_per_replica = batch_size c;
           gbs = batch_size_per_replica * n_devices;
           fw = first_worker env (device c);
           lst = (case model_list c of None \<Rightarrow> MODELS env | Some l \<Rightarrow> l)
       in
     bind_ev ([], checkarg_model env (model c) lst) (\<lambda>m.
     bind_ev ([], choose_loss (loss c)) (\<lambda>lf.
       ([], Inr (config.extend (c\<lparr>model := m\<rparr>)
                   \<lparr>global_batch_size = gbs, running_on_first_worker = fw,
                    lossf = lf, built_model = None\<rparr>))))))"

section \<open>training_logic.py: SupervisedTrainer\<close>

definition recmodels :: "string list" where
  "recmodels = [''recurrent_resnet_spc'', ''recurrent_resnet_rc'', ''recurrent_resnet_bi'']"

text \<open>
  The three checks that open \<open>setup_datagen\<close>: the two on \<open>time_window\<close>, after the
  one on \<open>patch_size\<close>.  Python's \<open>%\<close> raises on a zero
  divisor; on a non-zero one it is the floored remainder, which \<open>mod\<close> on \<open>int\<close> is.
\<close>

definition check_time_window :: "'f trainer \<Rightarrow> error + unit" where
  "check_time_window self =
     (case time_window self of
        Some w \<Rightarrow>
          if model self \<notin> set recmodels then
            Inl (ValueError (''``time_window='' @ str_int w
              @ ''``, choose a model that handles samples with a temporal dimension''))
          else Inr ()
      | None \<Rightarrow>
          if model self \<in> set recmodels then
            Inl (ValueError (''``model='' @ model self
              @ ''``, the argument ``time_window`` must be a postive integer''))
          else Inr ())"

definition check_datagen_args :: "'f trainer \<Rightarrow> error + unit" where
  "check_datagen_args self =
     (case patch_size self of
        None \<Rightarrow> check_time_window self
      | Some p \<Rightarrow>
          if scale self = 0 then Inl ZeroDivisionError
          else if p mod scale self \<noteq> 0 then
            Inl (ValueError ''`patch_size` must be divisible by `scale` (remainder must be zero)'')
          else check_time_window self)"

definition setup_datagen :: "'f trainer \<Rightarrow> 'f event list \<times> (error + 'f trainer)" where
  "setup_datagen self =
     bind_ev ([], check_datagen_args self) (\<lambda>_.
       ([DataGenerator ''train'' (global_batch_size self),
         DataGenerator ''val'' (global_batch_size self),
         DataGenerator ''test'' (global_batch_size self)], Inr self))"

definition bool_int :: "bool \<Rightarrow> int" where
  "bool_int b = (if b then 1 else 0)"

definition len_predictors :: "nat option \<Rightarrow> int" where
  "len_predictors p = (case p of None \<Rightarrow> 0 | Some n \<Rightarrow> int n)"

text \<open>
  \<open>setup_model\<close>: the channels, then the network.  A name that is none of the six
  leaves \<open>self.model\<close> the string it was, and \<open>summary\<close> is then an attribute a string
  does not have.
\<close>

definition setup_model :: "'f trainer \<Rightarrow> 'f event list \<times> (error + 'f trainer)" where
  "setup_model self =
     (let m = model self;
          n_channels =
            (if m \<in> set [''resnet_spc'', ''resnet_bi'', ''resnet_rc''] then
               Some (data_train_channels self + bool_int (topography self)
                       + bool_int (landocean self) + len_predictors (predictors_train self),
                     None)
             else if m \<in> set recmodels then
               Some (data_train_channels self + len_predictors (predictors_train self),
                     Some (bool_int (topography self) + bool_int (landocean self)))
             else None);
          built =
            (if m \<in> set [''resnet_spc'', ''resnet_rc'', ''resnet_bi'', ''recurrent_resnet_spc'',
                          ''recurrent_resnet_rc'', ''recurrent_resnet_bi'']
             then map_option (\<lambda>(n, st). (m, n, st)) n_channels else None);
          self' = self\<lparr>built_model := built\<rparr>
      in
      bind_ev ((if built = None then [] else [BuildModel m]), Inr ()) (\<lambda>_.
        if verbose self = 1 \<and> running_on_first_worker self then
          (if built = None then ([], Inl (AttributeError ''summary''))
           else ([ModelSummary], Inr self'))
        else ([], Inr self')))"

text \<open>
  \<open>run\<close>.  \<open>save_path\<close> is a local variable of \<open>run\<close>, assigned in one branch only;
  \<open>local_save_path\<close> is None while it is unbound.
\<close>

definition setup_optimizer :: "'f env \<Rightarrow> 'f trainer \<Rightarrow> error + 'f learning_rate" where
  "setup_optimizer env self =
     (case learning_rate self of
        LRTuple vs \<Rightarrow>
          (if length vs < 2 then Inl IndexError
           else Inr (PiecewiseConstantDecay (lr_decay_after self) (vs ! 0) (vs ! 1)))
      | LRFloat r \<Rightarrow> Inr (LRFloat (float_times_int env r (hvd_size env)))
      | other \<Rightarrow> Inr other)"

definition run_callbacks :: "'f trainer \<Rightarrow> callback list" where
  "run_callbacks self =
     (if early_stopping self then [EarlyStopping (patience self)] else [])
     @ (if plot self = ''llp'' then [PlotLossesKerasTF] else [])
     @ [BroadcastGlobalVariablesCallback 0]
     @ (case savecheckpoint_path self of
          None \<Rightarrow> []
        | Some p \<Rightarrow> if running_on_first_worker self then [ModelCheckpoint p] else [])"

definition fit_verbose :: "'f trainer \<Rightarrow> int" where
  "fit_verbose self =
     (if verbose self = 1 \<and> running_on_first_worker self then 1
      else if verbose self = 2 \<and> running_on_first_worker self then 2
      else 0)"

definition save_model :: "'f trainer \<Rightarrow> 'f event list \<times> (error + unit)" where
  "save_model self =
     (if save self then
        (let local_save_path =
               (if save_path self = None then Some ''./saved_model/'' else None)
         in if running_on_first_worker self then
              (case local_save_path of
                 None \<Rightarrow> ([], Inl (UnboundLocalError ''save_path''))
               | Some p \<Rightarrow> ([MakeDirs p, ModelSave p], Inr ()))
            else ([], Inr ()))
      else ([], Inr ()))"

definition plot_curves :: "'f trainer \<Rightarrow> 'f event list" where
  "plot_curves self =
     (if plot self = ''plt'' then
        (let learning_curve_fname =
               (if save_plot self then Some ''learning_curve.png'' else None)
         in if running_on_first_worker self then
              PlotHistory learning_curve_fname # (if show_plot self then [Show] else [])
            else [])
      else [])"

definition run :: "'f env \<Rightarrow> 'f trainer \<Rightarrow> 'f event list \<times> (error + 'f trainer)" where
  "run env self =
     bind_ev ([], setup_optimizer env self) (\<lambda>lr.
       let self1 = self\<lparr>learning_rate := lr\<rparr>;
           callbacks = run_callbacks self1;
           v = fit_verbose self1
       in
     bind_ev ((case savecheckpoint_path self1 of None \<Rightarrow> [] | Some p \<Rightarrow> [MakeDirs p]), Inr ()) (\<lambda>_.
     bind_ev ([], (case steps_per_epoch self1 of
                     None \<Rightarrow> Inr None
                   | Some s \<Rightarrow> if hvd_size env = 0 then Inl ZeroDivisionError
                               else Inr (Some (s div hvd_size env)))) (\<lambda>steps.
       let self2 = self1\<lparr>steps_per_epoch := steps\<rparr> in
     bind_ev (case built_model self2 of
                None \<Rightarrow> ([], Inl (AttributeError ''compile''))
              | Some _ \<Rightarrow>
                  ([Compile lr (lossf self2),
                    Fit (epochs self2) steps callbacks (verbose self2),
                    Evaluate (test_steps self2) v,
                    PrintScore], Inr ())) (\<lambda>_.
     bind_ev (plot_curves self2, Inr ()) (\<lambda>_.
     bind_ev (save_model self2) (\<lambda>_. ([], Inr self2)))))))"

definition SupervisedTrainer_init ::
  "'f env \<Rightarrow> 'f config \<Rightarrow> 'f event list \<times> (error + 'f trainer)" where
  "SupervisedTrainer_init env c =
     bind_ev (Trainer_init env c) (\<lambda>self.
     bind_ev (setup_datagen self) (\<lambda>self.
     bind_ev (setup_model self) (\<lambda>self.
       run env self)))"

section \<open>cgan.py\<close>

text \<open>
  Numbers a caller can pass for \<open>lambda_scaling_factor\<close>: a Python int or a float.
\<close>

datatype 'f number = PyInt int | PyFloat 'f

text \<open>
  The TensorFlow operations and the other modules' functions that \<open>cgan.py\<close> calls,
  over a type \<open>'t\<close> of tensors, \<open>'x\<close> of training samples, \<open>'g\<close> of generators and
  \<open>'d\<close> of discriminators (each network with the state of its optimizer).
  \<open>binary_crossentropy\<close> is \<open>BinaryCrossentropy(from_logits=True)\<close>, called with the
  labels first; \<open>cast_newaxis\<close> is the cast of \<open>a[tf.newaxis, ...]\<close> to float32;
  \<open>generator_apply_gradients\<close> is the gradient of the generator's loss on its tape
  applied by the generator's optimizer, and likewise for the discriminator.
  The keyword arguments that \<open>training_cgan\<close> only hands on (scale, patch_size,
  interpolation, n_res_blocks, n_filters, attention) are inside these functions.
\<close>

record ('t, 'x, 'g, 'd, 'f) tf_ops =
  create_pair_hr_lr :: "'x \<Rightarrow> 't \<times> 't"
  cast_newaxis :: "'t \<Rightarrow> 't"
  generator_call :: "'g \<Rightarrow> 't \<Rightarrow> 't"
  discriminator_call :: "'d \<Rightarrow> 't \<Rightarrow> 't \<Rightarrow> 't"
  binary_crossentropy :: "'t \<Rightarrow> 't \<Rightarrow> 't"
  ones_like :: "'t \<Rightarrow> 't"
  zeros_like :: "'t \<Rightarrow> 't"
  tf_sub :: "'t \<Rightarrow> 't \<Rightarrow> 't"
  tf_abs :: "'t \<Rightarrow> 't"
  reduce_mean :: "'t \<Rightarrow> 't"
  tf_add :: "'t \<Rightarrow> 't \<Rightarrow> 't"
  number_times :: "'f number \<Rightarrow> 't \<Rightarrow> 't"
  generator_apply_gradients :: "'g \<Rightarrow> 'd \<Rightarrow> 't \<Rightarrow> 't \<Rightarrow> 'g"
  discriminator_apply_gradients :: "'d \<Rightarrow> 'g \<Rightarrow> 't \<Rightarrow> 't \<Rightarrow> 'd"
  rspc :: "int \<Rightarrow> 'g"
  rint :: "int \<Rightarrow> 'g"
  residual_discriminator :: "int \<Rightarrow> string \<Rightarrow> 'd"

definition generator_loss ::
  "('t, 'x, 'g, 'd, 'f) tf_ops \<Rightarrow> 't \<Rightarrow> 't \<Rightarrow> 't \<Rightarrow> 'f number \<Rightarrow> 't \<times> 't \<times> 't" where
  "generator_loss ops disc_generated_output gen_output target lambda_scaling_factor =
     (let gan_loss = binary_crossentropy ops (ones_like ops disc_generated_output)
                       disc_generated_output;
          l1_loss = reduce_mean ops (tf_abs ops (tf_sub ops target gen_output));
          total_gen_loss = tf_add ops gan_loss (number_times ops lambda_scaling_factor l1_loss)
      in (total_gen_loss, gan_loss, l1_loss))"

text \<open>The default of the keyword argument \<open>lambda_scaling_factor\<close>.\<close>

definition lambda_scaling_factor_default :: "'f number" where
  "lambda_scaling_factor_default = PyInt 100"

definition discriminator_loss :: "('t, 'x, 'g, 'd, 'f) tf_ops \<Rightarrow> 't \<Rightarrow> 't \<Rightarrow> 't" where
  "discriminator_loss ops disc_real_output disc_generated_output =
     (let real_loss = binary_crossentropy ops (ones_like ops disc_real_output) disc_real_output;
          generated_loss = binary_crossentropy ops (zeros_like ops disc_generated_output)
                             disc_generated_output
      in tf_add ops real_loss generated_loss)"

text \<open>
  \<open>train_step\<close> returns the two networks after their updates, the four scalars it
  writes to the summary (each with its tag, at step \<open>epoch\<close>), and the four losses.
\<close>

type_synonym 't losses = "'t \<times> 't \<times> 't \<times> 't"

definition train_step ::
  "('t, 'x, 'g, 'd, 'f) tf_ops \<Rightarrow> 't \<Rightarrow> 't \<Rightarrow> 'g \<Rightarrow> 'd \<Rightarrow> int
     \<Rightarrow> ('g \<times> 'd) \<times> (string \<times> 't \<times> int) list \<times> 't losses" where
  "train_step ops lr_array0 hr_array0 generator discriminator epoch =
     (let lr_array = cast_newaxis ops lr_array0;
          hr_array = cast_newaxis ops hr_array0;
          gen_lr_array = generator_call ops generator lr_array;
          disc_real_output = discriminator_call ops discriminator lr_array hr_array;
          disc_generated_output = discriminator_call ops discriminator lr_array gen_lr_array;
          (gen_total_loss, gen_gan_loss, gen_l1_loss) =
             generator_loss ops disc_generated_output gen_lr_array hr_array
               lambda_scaling_factor_default;
          disc_loss = discriminator_loss ops disc_real_output disc_generated_output;
          generator' = generator_apply_gradients ops generator discriminator lr_array hr_array;
          discriminator' =
             discriminator_apply_gradients ops discriminator generator lr_array hr_array
      in ((generator', discriminator'),
          [(''gen_total_loss'', gen_total_loss, epoch),
           (''gen_gan_loss'', gen_gan_loss, epoch),
           (''gen_l1_loss'', gen_l1_loss, epoch),
           (''disc_loss'', disc_loss, epoch)],
          (gen_total_loss, gen_gan_loss, gen_l1_loss, disc_loss)))"

text \<open>
  The effects of \<open>training_cgan\<close>.  \<open>TrainStep epoch i x\<close> is one call of \<open>train_step\<close>,
  in epoch \<open>epoch\<close>, on the pair made from \<open>x = x_train[i]\<close>; \<open>CheckpointSave\<close> carries
  the file prefix and the keywords under which the Checkpoint object tracks its four objects.
\<close>

datatype ('t, 'x) cgan_event =
    CreateFileWriter
  | BuildGenerator string int
  | BuildDiscriminator int
  | PrintEpoch int
  | PrintDot
  | TrainStep int nat 'x "(string \<times> 't \<times> int) list"
  | PrintLosses "'t losses"
  | CheckpointSave string "string list"
  | PrintTime int
  | SaveLosses "'t losses list"
  | Runtime

text \<open>
  The local variables that the loops assign: \<open>generator\<close> (None while unbound, which it
  stays when \<open>model\<close> is neither name), the discriminator, the losses of the last step
  (None while unbound) and the four lists of losses, one entry an epoch.
\<close>

record ('t, 'g, 'd) cgan_state =
  generator :: "'g option"
  discriminator :: 'd
  losses :: "'t losses option"
  history :: "'t losses list"

fun sample_loop ::
  "('t, 'x, 'g, 'd, 'f) tf_ops \<Rightarrow> 'x list \<Rightarrow> int \<Rightarrow> nat list \<Rightarrow> ('t, 'g, 'd) cgan_state
     \<Rightarrow> ('t, 'x) cgan_event list \<times> (error + ('t, 'g, 'd) cgan_state)" where
  "sample_loop ops x_train epoch [] st = ([], Inr st)"
| "sample_loop ops x_train epoch (i # rest) st =
     bind_ev ((if (int i + 1) mod 100 = 0 then [PrintDot] else []), Inr ()) (\<lambda>_.
       if \<not> i < length x_train then ([], Inl IndexError)
       else
         (case generator st of
            None \<Rightarrow> ([], Inl (UnboundLocalError ''generator''))
          | Some g \<Rightarrow>
              (let (hr_array, lr_array) = create_pair_hr_lr ops (x_train ! i);
                   ((g', d'), summary, ls) =
                      train_step ops lr_array hr_array g (discriminator st) epoch
               in bind_ev ([TrainStep epoch i (x_train ! i) summary],
                           Inr (st\<lparr>generator := Some g', discriminator := d',
                                   losses := Some ls\<rparr>))
                    (sample_loop ops x_train epoch rest))))"

definition n_samples :: nat where
  "n_samples = 10"

definition checkpoint_prefix :: string where
  "checkpoint_prefix = ''./cgan_checkpoints/ckpt''"

text \<open>
  \<open>checkpoint.save\<close>: \<open>checkpoint\<close> is a local variable too, None while unbound.
\<close>

definition checkpoint_save ::
  "string list option \<Rightarrow> ('t, 'x) cgan_event list \<times> (error + unit)" where
  "checkpoint_save checkpoint =
     (case checkpoint of
        None \<Rightarrow> ([], Inl (UnboundLocalError ''checkpoint''))
      | Some tracked \<Rightarrow> ([CheckpointSave checkpoint_prefix tracked], Inr ()))"

text \<open>
  The periodic checkpoint at the end of an epoch; \<open>%\<close> raises on a frequency of zero.
\<close>

definition periodic_checkpoint ::
  "int option \<Rightarrow> string list option \<Rightarrow> int \<Rightarrow> ('t, 'x) cgan_event list \<times> (error + unit)" where
  "periodic_checkpoint checkpoints_frequency checkpoint epoch =
     (case checkpoints_frequency of
        None \<Rightarrow> ([], Inr ())
      | Some f \<Rightarrow>
          if f = 0 then ([], Inl ZeroDivisionError)
          else if (epoch + 1) mod f = 0 then checkpoint_save checkpoint
          else ([], Inr ()))"

fun epoch_loop ::
  "('t, 'x, 'g, 'd, 'f) tf_ops \<Rightarrow> 'x list \<Rightarrow> int option \<Rightarrow> string list option \<Rightarrow> nat list
     \<Rightarrow> ('t, 'g, 'd) cgan_state \<Rightarrow> ('t, 'x) cgan_event list \<times> (error + ('t, 'g, 'd) cgan_state)" where
  "epoch_loop ops x_train checkpoints_frequency checkpoint [] st = ([], Inr st)"
| "epoch_loop ops x_train checkpoints_frequency checkpoint (epoch # rest) st =
     bind_ev ([PrintEpoch (int epoch)], Inr ()) (\<lambda>_.
     bind_ev (sample_loop ops x_train (int epoch) [0..<n_samples] st) (\<lambda>st1.
     bind_ev (case losses st1 of
                None \<Rightarrow> ([], Inl (UnboundLocalError ''gen_total_loss''))
              | Some ls \<Rightarrow> ([PrintLosses ls], Inr (st1\<lparr>history := history st1 @ [ls]\<rparr>))) (\<lambda>st2.
     bind_ev (periodic_checkpoint checkpoints_frequency checkpoint (int epoch)) (\<lambda>_.
     bind_ev ([PrintTime (int epoch + 1)], Inr ()) (\<lambda>_.
       epoch_loop ops x_train checkpoints_frequency checkpoint rest st2)))))"

definition training_cgan ::
  "('t, 'x, 'g, 'd, 'f) tf_ops \<Rightarrow> 'x list \<Rightarrow> int \<Rightarrow> string \<Rightarrow> bool \<Rightarrow> bool \<Rightarrow> int option
     \<Rightarrow> ('t, 'x) cgan_event list \<times> (error + 'g)" where
  "training_cgan ops x_train n_epochs model_name topography_given landocean_given
       checkpoints_frequency =
     (let n_channels = 1 + bool_int topography_given + bool_int landocean_given;
          gen = (if model_name = ''rspc'' then Some (rspc ops n_channels)
                 else if model_name = ''rint'' then Some (rint ops n_channels)
                 else None);
          disc = residual_discriminator ops n_channels model_name
      in
      bind_ev ([CreateFileWriter]
                 @ (if gen = None then [] else [BuildGenerator model_name n_channels])
                 @ [BuildDiscriminator n_channels], Inr ()) (\<lambda>_.
      bind_ev ([], (case checkpoints_frequency of
                      None \<Rightarrow> Inr None
                    | Some f \<Rightarrow>
                        if gen = None then Inl (UnboundLocalError ''generator'')
                        else Inr (Some [''generator_optimizer'', ''discriminator_optimizer'',
                                        ''generator'', ''discriminator'']))) (\<lambda>checkpoint.
      bind_ev
        (epoch_loop ops x_train checkpoints_frequency checkpoint [0..<nat n_epochs]
           \<lparr>generator = gen, discriminator = disc, losses = None, history = []\<rparr>) (\<lambda>st.
      bind_ev (checkpoint_save checkpoint) (\<lambda>_.
      bind_ev ([SaveLosses (history st), Runtime], Inr ()) (\<lambda>_.
        (case generator st of
           None \<Rightarrow> ([], Inl (UnboundLocalError ''generator''))
         | Some g \<Rightarrow> ([], Inr g))))))))"

section \<open>Process groups, traces and example inputs\<close>

text \<open>
  A process group runs the same constructor call in every member; Horovod numbers the
  members of a group of \<open>n\<close> processes with the ranks \<open>0\<close> to \<open>n - 1\<close>.  The first
  workers of a group are the members whose constructed Trainer has
  \<open>running_on_first_worker\<close> set.
\<close>

definition process_group :: "'f env list \<Rightarrow> bool" where
  "process_group envs = (envs \<noteq> [] \<and> map hvd_rank envs = map int [0..<length envs])"

definition first_workers :: "'f env list \<Rightarrow> 'f config \<Rightarrow> 'f env list" where
  "first_workers envs c =
     filter (\<lambda>e. case snd (Trainer_init e c) of
                   Inl _ \<Rightarrow> False
                 | Inr t \<Rightarrow> running_on_first_worker t) envs"

text \<open>
  The calls of \<open>train_step\<close> in a trace, in order: the epoch, the index and the sample.
\<close>

fun train_steps_of :: "('t, 'x) cgan_event list \<Rightarrow> (int \<times> nat \<times> 'x) list" where
  "train_steps_of [] = []"
| "train_steps_of (TrainStep epoch i x summary # evs) = (epoch, i, x) # train_steps_of evs"
| "train_steps_of (_ # evs) = train_steps_of evs"

text \<open>The effects that neither begin an epoch nor save a checkpoint.\<close>

fun loop_event :: "('t, 'x) cgan_event \<Rightarrow> bool" where
  "loop_event (PrintEpoch e) = False"
| "loop_event (CheckpointSave p t) = False"
| "loop_event _ = True"

text \<open>
  The checkpoints in a trace: for each \<open>CheckpointSave\<close>, the number of epochs begun
  before it, which is the 1-based index of the epoch it follows; \<open>n\<close> is the number of
  epochs begun so far.
\<close>

fun checkpoint_epochs :: "int \<Rightarrow> ('t, 'x) cgan_event list \<Rightarrow> int list" where
  "checkpoint_epochs n [] = []"
| "checkpoint_epochs n (PrintEpoch epoch # evs) = checkpoint_epochs (epoch + 1) evs"
| "checkpoint_epochs n (CheckpointSave prefix tracked # evs) = n # checkpoint_epochs n evs"
| "checkpoint_epochs n (_ # evs) = checkpoint_epochs n evs"

text \<open>
  The defaults of the keyword arguments of \<open>SupervisedTrainer.__init__\<close>, for an
  architecture name and training data with one channel, with floats read as reals.
\<close>

definition default_config :: "string \<Rightarrow> real config" where
  "default_config m =
     \<lparr>model = m, loss = ''mae'', batch_size = 64, device = ''GPU'',
      gpu_memory_growth = True, use_multiprocessing = False, model_list = None,
      verbose = 1, data_train_channels = 1, predictors_train = None,
      topography = False, landocean = False, scale = 5, patch_size = Some 50,
      time_window = None, epochs = 60, steps_per_epoch = None, validation_steps = None,
      test_steps = None, learning_rate = LRFloat (1 / 10000),
      lr_decay_after = Some 100000, early_stopping = False, patience = 6,
      plot = ''plt'', show_plot = True, save_plot = False, save = False,
      save_path = None, savecheckpoint_path = Some ''./checkpoints/''\<rparr>"

text \<open>
  An example environment: the member of rank \<open>r\<close> in a group of \<open>n\<close> processes, on a
  machine with one GPU and one CPU.
\<close>

definition example_env :: "int \<Rightarrow> int \<Rightarrow> real env" where
  "example_env r n =
     \<lparr>hvd_rank = r, hvd_local_rank = r, hvd_size = n,
      gpu_devices = [''GPU:0''], cpu_devices = [''CPU:0''],
      MODELS = [''resnet_spc'', ''resnet_bi'', ''resnet_rc'', ''recurrent_resnet_spc'',
                ''recurrent_resnet_rc'', ''recurrent_resnet_bi''],
      model_not_recognized_msg = (\<lambda>m lst. ''`model` not recognized''),
      float_times_int = (\<lambda>x k. x * of_int k)\<rparr>"

text \<open>
  Example operations for \<open>cgan.py\<close>: tensors are integers, a sample is a number, a
  network is the number of updates it has received.
\<close>

definition example_ops :: "(int, nat, nat, nat, real) tf_ops" where
  "example_ops =
     \<lparr>create_pair_hr_lr = (\<lambda>x. (int x, int x div 5)),
      cast_newaxis = (\<lambda>t. t),
      generator_call = (\<lambda>g t. 5 * t),
      discriminator_call = (\<lambda>d a b. a - b),
      binary_crossentropy = (\<lambda>y p. \<bar>y - p\<bar>),
      ones_like = (\<lambda>t. 1),
      zeros_like = (\<lambda>t. 0),
      tf_sub = (\<lambda>a b. a - b),
      tf_abs = (\<lambda>a. \<bar>a\<bar>),
      reduce_mean = (\<lambda>a. a),
      tf_add = (\<lambda>a b. a + b),
      number_times = (\<lambda>k t. case k of PyInt i \<Rightarrow> i * t | PyFloat x \<Rightarrow> \<lfloor>x\<rfloor> * t),
      generator_apply_gradients = (\<lambda>g d a b. Suc g),
      discriminator_apply_gradients = (\<lambda>d g a b. Suc d),
      rspc = (\<lambda>n. 0),
      rint = (\<lambda>n. 0),
      residual_discriminator = (\<lambda>n m. 0)\<rparr>"

text \<open>
  The keywords of the Checkpoint object, the local variables before the first epoch,
  and the epoch loop of \<open>training_cgan\<close> run from them.
\<close>

definition tracked_objects :: "string list" where
  "tracked_objects = [''generator_optimizer'', ''discriminator_optimizer'',
                      ''generator'', ''discriminator'']"

definition initial_state ::
  "('t, 'x, 'g, 'd, 'f) tf_ops \<Rightarrow> string \<Rightarrow> bool \<Rightarrow> bool \<Rightarrow> ('t, 'g, 'd) cgan_state" where
  "initial_state ops model_name tg lg =
     (let n_channels = 1 + bool_int tg + bool_int lg
      in \<lparr>generator = (if model_name = ''rspc'' then Some (rspc ops n_channels)
                        else if model_name = ''rint'' then Some (rint ops n_channels)
                        else None),
          discriminator = residual_discriminator ops n_channels model_name,
          losses = None, history = []\<rparr>)"

definition training_loop ::
  "('t, 'x, 'g, 'd, 'f) tf_ops \<Rightarrow> 'x list \<Rightarrow> int \<Rightarrow> string \<Rightarrow> bool \<Rightarrow> bool \<Rightarrow> int option
     \<Rightarrow> ('t, 'x) cgan_event list \<times> (error + ('t, 'g, 'd) cgan_state)" where
  "training_loop ops x_train n_epochs model_name tg lg f =
     epoch_loop ops x_train f (case f of None \<Rightarrow> None | Some k \<Rightarrow> Some tracked_objects)
       [0..<nat n_epochs] (initial_state ops model_name tg lg)"

text \<open>
  What a run without exception is expected to do: the 1-based indices of the epochs
  followed by a periodic checkpoint, and the calls of \<open>train_step\<close> of a list of epochs.
\<close>

definition expected_checkpoints :: "int option \<Rightarrow> nat list \<Rightarrow> int list" where
  "expected_checkpoints f es =
     (case f of
        None \<Rightarrow> []
      | Some k \<Rightarrow> map (\<lambda>e. int e + 1) (filter (\<lambda>e. (int e + 1) mod k = 0) es))"

definition expected_steps :: "'x list \<Rightarrow> nat list \<Rightarrow> (int \<times> nat \<times> 'x) list" where
  "expected_steps x_train es =
     concat (map (\<lambda>e. map (\<lambda>i. (int e, i, x_train ! i)) [0..<n_samples]) es)"

text \<open>The loss names that the chain of comparisons in \<open>Trainer.__init__\<close> recognises.\<close>

definition loss_names :: "string list" where
  "loss_names = [''mae'', ''mse'', ''dssim'', ''dssim_mae'', ''dssim_mse'', ''dssim_mae_mse'']"

section \<open>Sequencing\<close>

lemma fst_bind_ev:
  "fst (bind_ev m k) = fst m @ (case snd m of Inl e \<Rightarrow> [] | Inr x \<Rightarrow> fst (k x))"
  by (cases m) (auto simp: bind_ev_def split: sum.splits prod.splits)

lemma snd_bind_ev:
  "snd (bind_ev m k) = (case snd m of Inl e \<Rightarrow> Inl e | Inr x \<Rightarrow> snd (k x))"
  by (cases m) (auto simp: bind_ev_def split: sum.splits prod.splits)

lemma bind_ev_Inl: "bind_ev (es, Inl e) k = (es, Inl e)"
  by (simp add: bind_ev_def)

lemma bind_ev_Inr: "bind_ev (es, Inr x) k = (es @ fst (k x), snd (k x))"
  by (simp add: bind_ev_def split: prod.splits)

lemma bind_ev_eq_Inr:
  "bind_ev m k = (evs, Inr y) \<longleftrightarrow>
     (\<exists>es x es'. m = (es, Inr x) \<and> k x = (es', Inr y) \<and> evs = es @ es')"
  by (cases m) (auto simp: bind_ev_def split: sum.splits prod.splits)

section \<open>The base constructor\<close>

lemma Trainer_init_Inr:
  assumes "Trainer_init env c = (evs, Inr t)"
  shows "device c = ''GPU'' \<or> device c = ''CPU''"
    and "model c \<in> set (case model_list c of None \<Rightarrow> MODELS env | Some l \<Rightarrow> l)"
    and "choose_loss (loss c) = Inr (lossf t)"
    and "global_batch_size t =
           batch_size c * int (length (if device c = ''GPU'' then gpu_devices env
                                       else cpu_devices env))"
    and "running_on_first_worker t = first_worker env (device c)"
    and "evs = HvdInit # fst (setup_devices env c)"
    and "built_model t = None"
    and "model t = model c" and "patch_size t = patch_size c" and "scale t = scale c"
    and "time_window t = time_window c" and "learning_rate t = learning_rate c"
    and "save t = save c" and "save_path t = save_path c" and "verbose t = verbose c"
  using assms
  by (auto simp: Trainer_init_def bind_ev_eq_Inr setup_devices_def checkarg_model_def
      Let_def config.extend_def split: if_splits)

lemma Trainer_init_trace: "fst (Trainer_init env c) = HvdInit # fst (setup_devices env c)"
  by (simp add: Trainer_init_def fst_bind_ev Let_def split: sum.splits)

lemma choose_loss_Inl: "choose_loss l = Inl e \<Longrightarrow> e = ValueError ''`loss` not recognized''"
  by (simp add: choose_loss_def split: if_splits)

lemma Trainer_init_Inl:
  assumes "snd (Trainer_init env c) = Inl e"
  shows "\<exists>msg. e = ValueError msg"
  using assms
  by (auto simp: Trainer_init_def snd_bind_ev setup_devices_def checkarg_model_def Let_def
      split: if_splits sum.splits dest: choose_loss_Inl)

lemma SupervisedTrainer_init_base_Inl:
  "snd (Trainer_init env c) = Inl e \<Longrightarrow>
     SupervisedTrainer_init env c = (HvdInit # fst (setup_devices env c), Inl e)"
  by (cases "Trainer_init env c")
     (use Trainer_init_trace [of env c] in \<open>simp add: SupervisedTrainer_init_def bind_ev_Inl\<close>)

lemma SupervisedTrainer_init_check_Inl:
  assumes "Trainer_init env c = (evs, Inr t)" and "check_datagen_args t = Inl e"
  shows "SupervisedTrainer_init env c = (HvdInit # fst (setup_devices env c), Inl e)"
  using assms Trainer_init_trace [of env c]
  by (simp add: SupervisedTrainer_init_def bind_ev_Inr bind_ev_Inl setup_datagen_def)

lemma Trainer_init_accepts:
  assumes "device c = ''GPU'' \<or> device c = ''CPU''"
    and "model c \<in> set (case model_list c of None \<Rightarrow> MODELS env | Some l \<Rightarrow> l)"
    and "choose_loss (loss c) = Inr lf"
  shows "\<exists>t. Trainer_init env c = (HvdInit # fst (setup_devices env c), Inr t)"
  using assms
  by (auto simp: Trainer_init_def bind_ev_def setup_devices_def checkarg_model_def Let_def)

lemma example_Trainer_init:
  assumes "m \<in> set (MODELS (example_env r n))"
  shows "\<exists>t. Trainer_init (example_env r n) (default_config m) =
     ([HvdInit, SetGpuMemoryGrowth, SetVisibleGpus r, ListDevices True], Inr t)"
  using Trainer_init_accepts [of "default_config m" "example_env r n" MeanAbsoluteError] assms
  by (simp add: default_config_def example_env_def choose_loss_def setup_devices_def)

section \<open>The stages after the base constructor\<close>

lemma setup_datagen_Inr:
  "check_datagen_args self = Inr () \<Longrightarrow>
     setup_datagen self = ([DataGenerator ''train'' (global_batch_size self),
         DataGenerator ''val'' (global_batch_size self),
         DataGenerator ''test'' (global_batch_size self)], Inr self)"
  by (simp add: setup_datagen_def bind_ev_Inr)

lemma check_datagen_args_mismatch:
  assumes "(model self \<in> set recmodels) \<noteq> (time_window self \<noteq> None)"
  shows "\<exists>e. check_datagen_args self = Inl e
           \<and> (patch_size self = None \<or> scale self \<noteq> 0 \<longrightarrow> (\<exists>msg. e = ValueError msg))"
  using assms
  by (auto simp: check_datagen_args_def check_time_window_def split: option.splits)

lemma check_datagen_args_agree:
  assumes "(model self \<in> set recmodels) = (time_window self \<noteq> None)"
    and "\<forall>p. patch_size self = Some p \<longrightarrow> scale self \<noteq> 0 \<and> p mod scale self = 0"
  shows "check_datagen_args self = Inr ()"
  using assms
  by (auto simp: check_datagen_args_def check_time_window_def split: option.splits)

lemma setup_model_Inl: "snd (setup_model self) = Inl e \<Longrightarrow> e = AttributeError ''summary''"
  by (auto simp: setup_model_def snd_bind_ev Let_def split: if_splits)

lemma setup_model_Inr:
  assumes "setup_model self = (evs, Inr self')"
  shows "\<exists>b. self' = self\<lparr>built_model := b\<rparr>"
  using assms
  by (simp add: setup_model_def bind_ev_eq_Inr Let_def split: if_splits) blast+

lemma setup_model_trace:
  "set (fst (setup_model self)) \<subseteq> {BuildModel (model self), ModelSummary}"
  by (simp add: setup_model_def fst_bind_ev Let_def)

lemma setup_optimizer_Inl: "setup_optimizer env self = Inl e \<Longrightarrow> e = IndexError"
  by (auto simp: setup_optimizer_def split: learning_rate.splits if_splits)

lemma save_model_Inl: "snd (save_model self) = Inl e \<Longrightarrow> e = UnboundLocalError ''save_path''"
  by (auto simp: save_model_def Let_def split: if_splits option.splits)

lemma run_callbacks_update [simp]:
  "run_callbacks (self\<lparr>learning_rate := lr\<rparr>) = run_callbacks self"
  "run_callbacks (self\<lparr>steps_per_epoch := s\<rparr>) = run_callbacks self"
  by (simp_all add: run_callbacks_def split: option.splits)

lemma fit_verbose_update [simp]:
  "fit_verbose (self\<lparr>learning_rate := lr\<rparr>) = fit_verbose self"
  "fit_verbose (self\<lparr>steps_per_epoch := s\<rparr>) = fit_verbose self"
  by (simp_all add: fit_verbose_def)

lemma plot_curves_update [simp]:
  "plot_curves (self\<lparr>learning_rate := lr\<rparr>) = plot_curves self"
  "plot_curves (self\<lparr>steps_per_epoch := s\<rparr>) = plot_curves self"
  by (simp_all add: plot_curves_def)

lemma save_model_update [simp]:
  "save_model (self\<lparr>learning_rate := lr\<rparr>) = save_model self"
  "save_model (self\<lparr>steps_per_epoch := s\<rparr>) = save_model self"
  by (simp_all add: save_model_def)

text \<open>The effects of \<open>run\<close>, and its result.\<close>

lemma run_trace:
  "fst (run env self) =
     (case setup_optimizer env self of
        Inl e \<Rightarrow> []
      | Inr lr \<Rightarrow>
          (case savecheckpoint_path self of None \<Rightarrow> [] | Some p \<Rightarrow> [MakeDirs p])
          @ (if steps_per_epoch self \<noteq> None \<and> hvd_size env = 0 then []
             else (case built_model self of
                     None \<Rightarrow> []
                   | Some b \<Rightarrow>
                       [Compile lr (lossf self),
                        Fit (epochs self)
                          (map_option (\<lambda>s. s div hvd_size env) (steps_per_epoch self))
                          (run_callbacks self) (verbose self),
                        Evaluate (test_steps self) (fit_verbose self),
                        PrintScore] @ plot_curves self @ fst (save_model self))))"
proof (cases "setup_optimizer env self")
  case (Inl e)
  then show ?thesis by (simp add: run_def bind_ev_Inl)
next
  case (Inr lr)
  show ?thesis
  proof (cases "steps_per_epoch self \<noteq> None \<and> hvd_size env = 0")
    case True
    then show ?thesis
      by (simp add: run_def Inr bind_ev_Inr bind_ev_Inl Let_def split: option.splits)
  next
    case False
    show ?thesis
    proof (cases "built_model self")
      case None
      with False show ?thesis
        by (simp add: run_def Inr fst_bind_ev snd_bind_ev Let_def split: option.splits)
    next
      case (Some b)
      with False show ?thesis
        by (cases "steps_per_epoch self")
           (simp_all add: run_def Inr fst_bind_ev snd_bind_ev Let_def split: sum.splits)
    qed
  qed
qed

lemma run_result:
  "snd (run env self) =
     (case setup_optimizer env self of
        Inl e \<Rightarrow> Inl e
      | Inr lr \<Rightarrow>
          if steps_per_epoch self \<noteq> None \<and> hvd_size env = 0 then Inl ZeroDivisionError
          else if built_model self = None then Inl (AttributeError ''compile'')
          else (case snd (save_model self) of
                  Inl e \<Rightarrow> Inl e
                | Inr u \<Rightarrow>
                    Inr (self\<lparr>learning_rate := lr,
                          steps_per_epoch :=
                            map_option (\<lambda>s. s div hvd_size env) (steps_per_epoch self)\<rparr>)))"
proof (cases "setup_optimizer env self")
  case (Inl e)
  then show ?thesis by (simp add: run_def bind_ev_Inl)
next
  case (Inr lr)
  show ?thesis
    by (cases "steps_per_epoch self"; cases "built_model self")
       (simp_all add: run_def Inr fst_bind_ev snd_bind_ev Let_def split: sum.splits)
qed

lemma run_Inl:
  assumes "snd (run env self) = Inl e"
  shows "e \<in> {IndexError, ZeroDivisionError, AttributeError ''compile'',
              UnboundLocalError ''save_path''}"
  using assms
  by (auto simp: run_result split: sum.splits if_splits
      dest: setup_optimizer_Inl save_model_Inl)

lemma SupervisedTrainer_init_trace:
  "fst (SupervisedTrainer_init env c) =
     fst (Trainer_init env c) @
     (case snd (Trainer_init env c) of
        Inl e \<Rightarrow> []
      | Inr t \<Rightarrow>
          fst (setup_datagen t) @
          (case snd (setup_datagen t) of
             Inl e \<Rightarrow> []
           | Inr t1 \<Rightarrow>
               fst (setup_model t1) @
               (case snd (setup_model t1) of
                  Inl e \<Rightarrow> []
                | Inr t2 \<Rightarrow> fst (run env t2))))"
  by (simp add: SupervisedTrainer_init_def fst_bind_ev snd_bind_ev split: sum.splits)

lemma SupervisedTrainer_init_after_checks:
  assumes "Trainer_init env c = (evs, Inr t)" and "check_datagen_args t = Inr ()"
    and "snd (SupervisedTrainer_init env c) = Inl e"
  shows "\<forall>msg. e \<noteq> ValueError msg"
  using assms(3)
  by (auto simp: SupervisedTrainer_init_def assms(1) bind_ev_Inr setup_datagen_Inr [OF assms(2)]
      snd_bind_ev split: sum.splits dest!: setup_model_Inl run_Inl)

section \<open>Effects of a construction\<close>

lemmas supervised_defs =
  SupervisedTrainer_init_def Trainer_init_def setup_devices_def bind_ev_def
  checkarg_model_def choose_loss_def first_worker_def Let_def config.extend_def
  setup_datagen_def check_datagen_args_def check_time_window_def recmodels_def
  setup_model_def run_def setup_optimizer_def run_callbacks_def fit_verbose_def
  plot_curves_def save_model_def bool_int_def len_predictors_def
  default_config_def example_env_def

lemma setup_optimizer_float:
  "learning_rate self = LRFloat r \<Longrightarrow>
     setup_optimizer env self = Inr (LRFloat (float_times_int env r (hvd_size env)))"
  by (simp add: setup_optimizer_def)

lemma run_Compile:
  assumes "Compile lr lf \<in> set (fst (run env self))"
  shows "setup_optimizer env self = Inr lr \<and> lf = lossf self"
  using assms
  by (auto simp: run_trace plot_curves_def save_model_def Let_def
      split: sum.splits option.splits if_splits)

lemma run_Fit:
  assumes "Fit e s cb v \<in> set (fst (run env self))"
  shows "\<exists>lr. Compile lr (lossf self) \<in> set (fst (run env self))"
  using assms
  by (auto simp: run_trace plot_curves_def save_model_def Let_def
      split: sum.splits option.splits if_splits)

lemma setup_devices_trace:
  "set (fst (setup_devices env c)) \<subseteq>
     {SetGpuMemoryGrowth, SetVisibleGpus (hvd_local_rank env), ListDevices True, ListDevices False}"
  by (auto simp: setup_devices_def)

lemma setup_datagen_trace:
  "set (fst (setup_datagen self)) \<subseteq> {DataGenerator ''train'' (global_batch_size self),
         DataGenerator ''val'' (global_batch_size self),
         DataGenerator ''test'' (global_batch_size self)}"
  by (auto simp: setup_datagen_def fst_bind_ev split: sum.splits)

lemma setup_datagen_result: "snd (setup_datagen self) = Inr t \<Longrightarrow> t = self"
  by (auto simp: setup_datagen_def snd_bind_ev split: sum.splits)

text \<open>An effect of compiling, fitting or saving in a construction is an effect of run.\<close>

lemma SupervisedTrainer_init_run_effect:
  assumes "ev \<in> set (fst (SupervisedTrainer_init env c))"
    and "(\<exists>lr lf. ev = Compile lr lf) \<or> (\<exists>e s cb v. ev = Fit e s cb v) \<or> (\<exists>p. ev = ModelSave p)"
  shows "\<exists>evs t b. Trainer_init env c = (evs, Inr t)
            \<and> fst (SupervisedTrainer_init env c) =
                evs @ fst (setup_datagen t) @ fst (setup_model t)
                  @ fst (run env (t\<lparr>built_model := b\<rparr>))
            \<and> ev \<in> set (fst (run env (t\<lparr>built_model := b\<rparr>)))"
proof (cases "Trainer_init env c")
  case (Pair evs res)
  have tr: "fst (Trainer_init env c) = HvdInit # fst (setup_devices env c)"
    by (rule Trainer_init_trace)
  have notdev: "ev \<notin> set (fst (Trainer_init env c))"
    using assms(2) setup_devices_trace [of env c] unfolding tr by auto
  show ?thesis
  proof (cases res)
    case (Inl e)
    with Pair assms(1) notdev show ?thesis
      by (simp add: SupervisedTrainer_init_trace)
  next
    case (Inr t)
    with Pair have ok: "Trainer_init env c = (evs, Inr t)" by simp
    have notdg: "ev \<notin> set (fst (setup_datagen t))"
      using assms(2) setup_datagen_trace [of t] by auto
    have notsm: "ev \<notin> set (fst (setup_model t))"
      using assms(2) setup_model_trace [of t] by auto
    show ?thesis
    proof (cases "snd (setup_datagen t)")
      case (Inl e)
      with ok assms(1) notdev notdg show ?thesis
        by (simp add: SupervisedTrainer_init_trace)
    next
      case dg: (Inr t1)
      then have t1: "t1 = t" by (rule setup_datagen_result)
      show ?thesis
      proof (cases "snd (setup_model t)")
        case (Inl e)
        with ok assms(1) notdev notdg notsm dg t1 show ?thesis
          by (simp add: SupervisedTrainer_init_trace)
      next
        case sm: (Inr t2)
        then have "setup_model t = (fst (setup_model t), Inr t2)"
          by (metis prod.collapse)
        from setup_model_Inr [OF this] obtain b where b: "t2 = t\<lparr>built_model := b\<rparr>" by blast
        from ok assms(1) notdev notdg notsm dg t1 sm b
        have "fst (SupervisedTrainer_init env c) =
                evs @ fst (setup_datagen t) @ fst (setup_model t)
                  @ fst (run env (t\<lparr>built_model := b\<rparr>))"
          and "ev \<in> set (fst (run env (t\<lparr>built_model := b\<rparr>)))"
          by (simp_all add: SupervisedTrainer_init_trace)
        with ok show ?thesis by blast
      qed
    qed
  qed
qed

lemma run_ModelSave:
  assumes "ModelSave p \<in> set (fst (run env self))"
  shows "save self \<and> running_on_first_worker self \<and> save_path self = None
           \<and> p = ''./saved_model/''"
  using assms
  by (auto simp: run_trace plot_curves_def save_model_def Let_def
      split: sum.splits option.splits if_splits)

lemma example_run_trace:
  "fst (SupervisedTrainer_init (example_env 0 4) (default_config ''resnet_spc'')) =
   [HvdInit, SetGpuMemoryGrowth, SetVisibleGpus 0, ListDevices True,
    DataGenerator ''train'' 64, DataGenerator ''val'' 64,
    DataGenerator ''test'' 64, BuildModel ''resnet_spc'', ModelSummary,
    MakeDirs ''./checkpoints/'',
    Compile (LRFloat (1 / 2500)) MeanAbsoluteError,
    Fit 60 None
      [BroadcastGlobalVariablesCallback 0, ModelCheckpoint ''./checkpoints/''] 1,
    Evaluate None 1, PrintScore, PlotHistory None, Show]"
  by (simp add: supervised_defs)

section \<open>Ranks and messages\<close>

lemma filter_rank_zero:
  assumes "map hvd_rank envs = map int [0..<length envs]" and "envs \<noteq> []"
  shows "filter (\<lambda>e. hvd_rank e = 0) envs = [hd envs]"
proof -
  from assms(2) obtain e rest where envs: "envs = e # rest" by (cases envs) auto
  from assms(1) have e: "hvd_rank e = 0" and
    rest: "map hvd_rank rest = map int [Suc 0..<Suc (length rest)]"
    by (simp_all add: envs upt_conv_Cons del: upt_Suc)
  have "\<forall>x\<in>set rest. hvd_rank x \<noteq> 0"
  proof
    fix x assume "x \<in> set rest"
    then have "hvd_rank x \<in> set (map hvd_rank rest)" by simp
    then show "hvd_rank x \<noteq> 0" unfolding rest by auto
  qed
  then have "filter (\<lambda>e. hvd_rank e = 0) rest = []" by (simp add: filter_empty_conv)
  with e show ?thesis by (simp add: envs)
qed

lemma contains_prefix: "contains (s @ b) s"
proof (cases "s @ b")
  case Nil
  then show ?thesis by simp
next
  case (Cons x xs)
  have "take (length s) (s @ b) = s" by simp
  then show ?thesis unfolding Cons by simp
qed

lemma contains_append: "contains (a @ s @ b) s"
proof (induction a)
  case Nil
  show ?case using contains_prefix [of s b] by simp
next
  case (Cons x a)
  then show ?case by simp
qed

lemma contains_decompose: "contains s sub \<Longrightarrow> \<exists>a b. s = a @ sub @ b"
proof (induction s)
  case Nil
  then show ?case by simp
next
  case (Cons c cs)
  from Cons.prems have "take (length sub) (c # cs) = sub \<or> contains cs sub" by simp
  then show ?case
  proof
    assume "take (length sub) (c # cs) = sub"
    then have "c # cs = [] @ sub @ drop (length sub) (c # cs)"
      by (metis append_Nil append_take_drop_id)
    then show ?thesis by blast
  next
    assume "contains cs sub"
    from Cons.IH [OF this] obtain a b where "cs = a @ sub @ b" by blast
    then have "c # cs = (c # a) @ sub @ b" by simp
    then show ?thesis by blast
  qed
qed

lemma contains_appendI: "contains s sub \<Longrightarrow> contains (a @ s @ b) sub"
proof -
  assume "contains s sub"
  from contains_decompose [OF this] obtain p q where "s = p @ sub @ q" by blast
  then have "a @ s @ b = (a @ p) @ sub @ (q @ b)" by simp
  then show ?thesis using contains_append [of "a @ p" sub "q @ b"] by simp
qed

lemma choose_loss_unrecognized:
  "l \<notin> set loss_names \<Longrightarrow> choose_loss l = Inl (ValueError ''`loss` not recognized'')"
  by (simp add: choose_loss_def loss_names_def)

lemma str_int_3: "str_int 3 = ''3''"
  by code_simp

section \<open>Claims on the supervised trainer\<close>

text \<open>
  C4.  Whenever \<open>patch_size\<close> is given and leaves a non-zero remainder on division by
  \<open>scale\<close>, constructing a SupervisedTrainer raises a ValueError (the code's class for
  configuration errors), and the constructor has by then only initialised Horovod and
  set up the devices: no data generator, model, compilation or fit.
\<close>

theorem patch_size_not_divisible_raises:
  assumes "patch_size c = Some p" and "scale c \<noteq> 0" and "p mod scale c \<noteq> 0"
  shows "\<exists>msg. SupervisedTrainer_init env c =
           (HvdInit # fst (setup_devices env c), Inl (ValueError msg))"
proof (cases "Trainer_init env c")
  case (Pair evs res)
  show ?thesis
  proof (cases res)
    case (Inl e)
    with Pair have s: "snd (Trainer_init env c) = Inl e" by simp
    from Trainer_init_Inl [OF s] SupervisedTrainer_init_base_Inl [OF s]
    show ?thesis by auto
  next
    case (Inr t)
    with Pair have ok: "Trainer_init env c = (evs, Inr t)" by simp
    from Trainer_init_Inr [OF ok] assms
    have "check_datagen_args t =
            Inl (ValueError ''`patch_size` must be divisible by `scale` (remainder must be zero)'')"
      by (simp add: check_datagen_args_def)
    from SupervisedTrainer_init_check_Inl [OF ok this] show ?thesis by blast
  qed
qed

theorem patch_size_not_divisible_raises_witness:
  "patch_size ((default_config ''resnet_spc'')\<lparr>scale := 4\<rparr>) = Some 50
   \<and> scale ((default_config ''resnet_spc'')\<lparr>scale := 4\<rparr>) \<noteq> 0
   \<and> 50 mod scale ((default_config ''resnet_spc'')\<lparr>scale := 4\<rparr>) \<noteq> 0
   \<and> (\<exists>msg. SupervisedTrainer_init (example_env 0 1)
                ((default_config ''resnet_spc'')\<lparr>scale := 4\<rparr>) =
              ([HvdInit, SetGpuMemoryGrowth, SetVisibleGpus 0, ListDevices True],
               Inl (ValueError msg)))"
  using patch_size_not_divisible_raises
          [of "(default_config ''resnet_spc'')\<lparr>scale := 4\<rparr>" 50 "example_env 0 1"]
  by (simp add: default_config_def setup_devices_def example_env_def)

text \<open>
  C5.  When the architecture is recurrent and no \<open>time_window\<close> is given, or the
  architecture is not recurrent and a \<open>time_window\<close> is given, constructing a
  SupervisedTrainer raises, having only initialised Horovod and set up the devices; the
  exception is a ValueError, except that a \<open>patch_size\<close> given with \<open>scale = 0\<close> makes
  the earlier remainder raise ZeroDivisionError.  Conversely, when the base
  constructor accepts its arguments and \<open>patch_size\<close> passes its check, the
  construction ends in a ValueError exactly when the two disagree.
\<close>

theorem time_window_mismatch_raises:
  "((model c \<in> set recmodels) \<noteq> (time_window c \<noteq> None) \<longrightarrow>
      (\<exists>e. SupervisedTrainer_init env c = (HvdInit # fst (setup_devices env c), Inl e)
         \<and> (patch_size c = None \<or> scale c \<noteq> 0 \<longrightarrow> (\<exists>msg. e = ValueError msg))))
   \<and> ((\<exists>evs t. Trainer_init env c = (evs, Inr t))
        \<and> (\<forall>p. patch_size c = Some p \<longrightarrow> scale c \<noteq> 0 \<and> p mod scale c = 0) \<longrightarrow>
      ((\<exists>msg. snd (SupervisedTrainer_init env c) = Inl (ValueError msg))
         \<longleftrightarrow> (model c \<in> set recmodels) \<noteq> (time_window c \<noteq> None)))"
proof (intro conjI impI)
  assume dis: "(model c \<in> set recmodels) \<noteq> (time_window c \<noteq> None)"
  show "\<exists>e. SupervisedTrainer_init env c = (HvdInit # fst (setup_devices env c), Inl e)
         \<and> (patch_size c = None \<or> scale c \<noteq> 0 \<longrightarrow> (\<exists>msg. e = ValueError msg))"
  proof (cases "Trainer_init env c")
    case (Pair evs res)
    show ?thesis
    proof (cases res)
      case (Inl e)
      with Pair have s: "snd (Trainer_init env c) = Inl e" by simp
      from Trainer_init_Inl [OF s] SupervisedTrainer_init_base_Inl [OF s]
      show ?thesis by auto
    next
      case (Inr t)
      with Pair have ok: "Trainer_init env c = (evs, Inr t)" by simp
      from Trainer_init_Inr [OF ok] dis
      have "(model t \<in> set recmodels) \<noteq> (time_window t \<noteq> None)" by simp
      from check_datagen_args_mismatch [OF this] obtain e where
        e: "check_datagen_args t = Inl e"
           "patch_size t = None \<or> scale t \<noteq> 0 \<longrightarrow> (\<exists>msg. e = ValueError msg)"
        by blast
      from SupervisedTrainer_init_check_Inl [OF ok e(1)] e(2) Trainer_init_Inr [OF ok]
      show ?thesis by simp
    qed
  qed
next
  assume a: "(\<exists>evs t. Trainer_init env c = (evs, Inr t))
        \<and> (\<forall>p. patch_size c = Some p \<longrightarrow> scale c \<noteq> 0 \<and> p mod scale c = 0)"
  then obtain evs t where ok: "Trainer_init env c = (evs, Inr t)" by blast
  note f = Trainer_init_Inr [OF ok]
  show "(\<exists>msg. snd (SupervisedTrainer_init env c) = Inl (ValueError msg))
         \<longleftrightarrow> (model c \<in> set recmodels) \<noteq> (time_window c \<noteq> None)"
  proof (cases "(model c \<in> set recmodels) = (time_window c \<noteq> None)")
    case True
    with f a have "check_datagen_args t = Inr ()"
      by (intro check_datagen_args_agree) simp_all
    from SupervisedTrainer_init_after_checks [OF ok this] True
    show ?thesis by blast
  next
    case False
    with f have "(model t \<in> set recmodels) \<noteq> (time_window t \<noteq> None)" by simp
    from check_datagen_args_mismatch [OF this] obtain e where
      e: "check_datagen_args t = Inl e"
         "patch_size t = None \<or> scale t \<noteq> 0 \<longrightarrow> (\<exists>msg. e = ValueError msg)"
      by blast
    from a f have "patch_size t = None \<or> scale t \<noteq> 0" by (cases "patch_size c") auto
    with e obtain msg where "e = ValueError msg" by blast
    with SupervisedTrainer_init_check_Inl [OF ok e(1)] False
    show ?thesis by auto
  qed
qed

theorem time_window_mismatch_raises_witness:
  "(\<exists>e. SupervisedTrainer_init (example_env 0 1) (default_config ''recurrent_resnet_spc'') =
          ([HvdInit, SetGpuMemoryGrowth, SetVisibleGpus 0, ListDevices True], Inl e)
        \<and> (\<exists>msg. e = ValueError msg))
   \<and> (\<exists>e. SupervisedTrainer_init (example_env 0 1)
             ((default_config ''resnet_spc'')\<lparr>time_window := Some 3\<rparr>) =
          ([HvdInit, SetGpuMemoryGrowth, SetVisibleGpus 0, ListDevices True], Inl e)
        \<and> (\<exists>msg. e = ValueError msg))
   \<and> \<not> (\<exists>msg. snd (SupervisedTrainer_init (example_env 0 1) (default_config ''resnet_spc''))
                  = Inl (ValueError msg))"
proof (intro conjI)
  show "\<exists>e. SupervisedTrainer_init (example_env 0 1) (default_config ''recurrent_resnet_spc'') =
          ([HvdInit, SetGpuMemoryGrowth, SetVisibleGpus 0, ListDevices True], Inl e)
        \<and> (\<exists>msg. e = ValueError msg)"
    using time_window_mismatch_raises
            [of "default_config ''recurrent_resnet_spc''" "example_env 0 1"]
    by (simp add: default_config_def recmodels_def setup_devices_def example_env_def)
  show "\<exists>e. SupervisedTrainer_init (example_env 0 1)
             ((default_config ''resnet_spc'')\<lparr>time_window := Some 3\<rparr>) =
          ([HvdInit, SetGpuMemoryGrowth, SetVisibleGpus 0, ListDevices True], Inl e)
        \<and> (\<exists>msg. e = ValueError msg)"
    using time_window_mismatch_raises
            [of "(default_config ''resnet_spc'')\<lparr>time_window := Some 3\<rparr>" "example_env 0 1"]
    by (simp add: default_config_def recmodels_def setup_devices_def example_env_def)
  have "\<exists>evs t. Trainer_init (example_env 0 1) (default_config ''resnet_spc'') = (evs, Inr t)"
    using example_Trainer_init [of "''resnet_spc''" 0 1] by (auto simp: example_env_def)
  then show "\<not> (\<exists>msg. snd (SupervisedTrainer_init (example_env 0 1)
                              (default_config ''resnet_spc'')) = Inl (ValueError msg))"
    using time_window_mismatch_raises [of "default_config ''resnet_spc''" "example_env 0 1"]
    by (simp add: default_config_def recmodels_def)
qed

text \<open>
  C7.  A constructed Trainer has as global batch size the batch size per replica times
  the number of devices that \<open>list_devices\<close> returned for its device kind.
\<close>

theorem global_batch_size_product:
  assumes "Trainer_init env c = (evs, Inr t)"
  shows "global_batch_size t =
           batch_size c * int (length (if device c = ''GPU'' then gpu_devices env
                                       else cpu_devices env))"
  using Trainer_init_Inr(4) [OF assms] .

theorem global_batch_size_product_witness:
  "\<exists>evs t. Trainer_init
              ((example_env 0 1)\<lparr>gpu_devices := [''GPU:0'', ''GPU:1'', ''GPU:2'', ''GPU:3'']\<rparr>)
              (default_config ''resnet_spc'') = (evs, Inr t)
     \<and> global_batch_size t = 256"
proof -
  let ?env = "(example_env 0 1)\<lparr>gpu_devices := [''GPU:0'', ''GPU:1'', ''GPU:2'', ''GPU:3'']\<rparr>"
  obtain t evs where t: "Trainer_init ?env (default_config ''resnet_spc'') = (evs, Inr t)"
    using Trainer_init_accepts [of "default_config ''resnet_spc''" ?env MeanAbsoluteError]
    by (auto simp: default_config_def example_env_def choose_loss_def)
  from global_batch_size_product [OF t] have "global_batch_size t = 256"
    by (simp add: default_config_def example_env_def)
  with t show ?thesis by blast
qed

text \<open>
  C6.  With a float learning rate \<open>r\<close>, every compilation in a construction is with an
  optimizer of learning rate \<open>r\<close> times the Horovod size (the product of a float by an
  int, as Python computes it), and a construction that fits has compiled with it.
\<close>

theorem scalar_learning_rate_scaled:
  assumes "learning_rate c = LRFloat r"
  shows "(\<forall>lr lf. Compile lr lf \<in> set (fst (SupervisedTrainer_init env c)) \<longrightarrow>
            lr = LRFloat (float_times_int env r (hvd_size env)))
       \<and> (\<forall>e s cb v. Fit e s cb v \<in> set (fst (SupervisedTrainer_init env c)) \<longrightarrow>
            (\<exists>lf. Compile (LRFloat (float_times_int env r (hvd_size env))) lf
                    \<in> set (fst (SupervisedTrainer_init env c))))"
proof (intro conjI allI impI)
  fix lr lf
  assume "Compile lr lf \<in> set (fst (SupervisedTrainer_init env c))"
  from SupervisedTrainer_init_run_effect [OF this] obtain evs t b where
    ok: "Trainer_init env c = (evs, Inr t)"
    and r: "Compile lr lf \<in> set (fst (run env (t\<lparr>built_model := b\<rparr>)))"
    by blast
  from Trainer_init_Inr(12) [OF ok] assms
  have "learning_rate (t\<lparr>built_model := b\<rparr>) = LRFloat r" by simp
  from setup_optimizer_float [OF this] run_Compile [OF r]
  show "lr = LRFloat (float_times_int env r (hvd_size env))" by simp
next
  fix e s cb v
  assume "Fit e s cb v \<in> set (fst (SupervisedTrainer_init env c))"
  from SupervisedTrainer_init_run_effect [OF this] obtain evs t b where
    ok: "Trainer_init env c = (evs, Inr t)"
    and tr: "fst (SupervisedTrainer_init env c) =
                evs @ fst (setup_datagen t) @ fst (setup_model t)
                  @ fst (run env (t\<lparr>built_model := b\<rparr>))"
    and r: "Fit e s cb v \<in> set (fst (run env (t\<lparr>built_model := b\<rparr>)))"
    by blast
  from run_Fit [OF r] obtain lr where
    c: "Compile lr (lossf (t\<lparr>built_model := b\<rparr>)) \<in> set (fst (run env (t\<lparr>built_model := b\<rparr>)))"
    by blast
  from Trainer_init_Inr(12) [OF ok] assms
  have "learning_rate (t\<lparr>built_model := b\<rparr>) = LRFloat r" by simp
  from setup_optimizer_float [OF this] run_Compile [OF c]
  have "lr = LRFloat (float_times_int env r (hvd_size env))" by simp
  with c tr show "\<exists>lf. Compile (LRFloat (float_times_int env r (hvd_size env))) lf
                    \<in> set (fst (SupervisedTrainer_init env c))"
    by auto
qed

theorem scalar_learning_rate_scaled_witness:
  "learning_rate (default_config ''resnet_spc'') = LRFloat (1 / 10000)
   \<and> (\<exists>lf. Compile (LRFloat (4 / 10000)) lf
             \<in> set (fst (SupervisedTrainer_init (example_env 0 4) (default_config ''resnet_spc''))))"
proof -
  have lr: "learning_rate (default_config ''resnet_spc'') = LRFloat (1 / 10000)"
    by (simp add: default_config_def)
  have fit: "Fit 60 None
      [BroadcastGlobalVariablesCallback 0, ModelCheckpoint ''./checkpoints/''] 1
      \<in> set (fst (SupervisedTrainer_init (example_env 0 4) (default_config ''resnet_spc'')))"
    by (simp add: example_run_trace)
  from scalar_learning_rate_scaled [OF lr, of "example_env 0 4"] fit
  have "\<exists>lf. Compile (LRFloat (float_times_int (example_env 0 4) (1 / 10000)
                                  (hvd_size (example_env 0 4)))) lf
             \<in> set (fst (SupervisedTrainer_init (example_env 0 4) (default_config ''resnet_spc'')))"
    by blast
  then show ?thesis using lr by (simp add: example_env_def)
qed

text \<open>
  C2.  The claim fails on the code when the caller provides \<open>save_path\<close>: \<open>run\<close> binds
  its local \<open>save_path\<close> only when \<open>self.save_path\<close> is None, so on the first worker,
  after training and evaluation, reading it raises UnboundLocalError and no model is
  saved.  Here with \<open>save=True\<close> and \<open>save_path='./my_model/'\<close>, one process.
\<close>

theorem save_path_given_raises:
  "SupervisedTrainer_init (example_env 0 1)
     ((default_config ''resnet_spc'')\<lparr>save := True, save_path := Some ''./my_model/''\<rparr>) =
   ([HvdInit, SetGpuMemoryGrowth, SetVisibleGpus 0, ListDevices True,
     DataGenerator ''train'' 64, DataGenerator ''val'' 64,
     DataGenerator ''test'' 64, BuildModel ''resnet_spc'', ModelSummary,
     MakeDirs ''./checkpoints/'',
     Compile (LRFloat (1 / 10000)) MeanAbsoluteError,
     Fit 60 None
       [BroadcastGlobalVariablesCallback 0, ModelCheckpoint ''./checkpoints/''] 1,
     Evaluate None 1, PrintScore, PlotHistory None, Show],
    Inl (UnboundLocalError ''save_path''))"
  by (simp add: supervised_defs)

text \<open>
  C3, as stated, fails for CPU training: in a group of two processes on CPU both
  members are first workers.
\<close>

theorem cpu_group_two_first_workers:
  "process_group [example_env 0 2, example_env 1 2]
   \<and> length (first_workers [example_env 0 2, example_env 1 2]
        ((default_config ''resnet_spc'')\<lparr>device := ''CPU''\<rparr>)) = 2"
  by (simp add: process_group_def first_workers_def supervised_defs upt_conv_Cons)

text \<open>
  C3, amended.  In a process group whose members all construct their Trainer: on GPU
  exactly one member is first worker, the member of rank 0; on CPU every member is.
\<close>

theorem first_worker_designation:
  assumes "process_group envs"
    and "\<forall>e\<in>set envs. \<exists>t. snd (Trainer_init e c) = Inr t"
  shows "(device c = ''GPU'' \<and> first_workers envs c = [hd envs])
       \<or> (device c = ''CPU'' \<and> device c \<noteq> ''GPU'' \<and> first_workers envs c = envs)"
proof -
  have flag: "(case snd (Trainer_init e c) of Inl _ \<Rightarrow> False
               | Inr t \<Rightarrow> running_on_first_worker t) = first_worker e (device c)"
    if "e \<in> set envs" for e
  proof -
    from assms(2) that obtain t where t: "snd (Trainer_init e c) = Inr t" by blast
    then have "Trainer_init e c = (fst (Trainer_init e c), Inr t)"
      by (metis prod.collapse)
    from Trainer_init_Inr(5) [OF this] t show ?thesis by simp
  qed
  have fw: "first_workers envs c = filter (\<lambda>e. first_worker e (device c)) envs"
    unfolding first_workers_def by (rule filter_cong) (simp_all add: flag)
  from assms(1) have ne: "envs \<noteq> []"
    and ranks: "map hvd_rank envs = map int [0..<length envs]"
    by (simp_all add: process_group_def)
  from ne obtain e where "e \<in> set envs" by (cases envs) auto
  with assms(2) obtain t where t: "snd (Trainer_init e c) = Inr t" by blast
  then have "Trainer_init e c = (fst (Trainer_init e c), Inr t)"
    by (metis prod.collapse)
  from Trainer_init_Inr(1) [OF this] have dev: "device c = ''GPU'' \<or> device c = ''CPU''" .
  show ?thesis
  proof (cases "device c = ''GPU''")
    case True
    then have "first_workers envs c = filter (\<lambda>e. hvd_rank e = 0) envs"
      by (simp add: fw first_worker_def)
    with filter_rank_zero [OF ranks ne] True show ?thesis by simp
  next
    case False
    with dev have "device c = ''CPU''" by simp
    with False show ?thesis by (simp add: fw first_worker_def)
  qed
qed

theorem first_worker_designation_witness:
  "process_group [example_env 0 2, example_env 1 2]
   \<and> first_workers [example_env 0 2, example_env 1 2] (default_config ''resnet_spc'')
       = [example_env 0 2]"
proof -
  have g: "process_group [example_env 0 2, example_env 1 2]"
    by (simp add: process_group_def example_env_def upt_conv_Cons)
  have ok: "\<forall>e\<in>set [example_env 0 2, example_env 1 2].
              \<exists>t. snd (Trainer_init e (default_config ''resnet_spc'')) = Inr t"
    by (simp add: supervised_defs)
  from first_worker_designation [OF g ok] g show ?thesis
    by (simp add: default_config_def)
qed

text \<open>
  C9, as stated, fails: the error for an unrecognized device kind does not include the
  received value.
\<close>

theorem device_error_omits_value:
  "SupervisedTrainer_init (example_env 0 1) ((default_config ''resnet_spc'')\<lparr>device := ''TPU''\<rparr>)
     = ([HvdInit], Inl (ValueError ''device not recognized''))
   \<and> \<not> contains ''device not recognized'' ''TPU''"
  by (simp add: supervised_defs)

text \<open>
  C9, amended.  The errors that the trainers' own code raises at construction name the
  offending parameter: the device error and the loss error are fixed messages with
  \<open>device\<close> and \<open>loss\<close>, the \<open>patch_size\<close> error a fixed message with \<open>patch_size\<close> and
  \<open>scale\<close>; a \<open>time_window\<close> given to an architecture that is not recurrent is reported
  with \<open>time_window\<close> and its value, and a recurrent architecture without \<open>time_window\<close>
  with \<open>time_window\<close>, \<open>model\<close> and the architecture's name.
\<close>

theorem error_messages_name_parameter:
  "(device c \<noteq> ''GPU'' \<and> device c \<noteq> ''CPU'' \<longrightarrow>
      snd (SupervisedTrainer_init env c) = Inl (ValueError ''device not recognized'')
      \<and> contains ''device not recognized'' ''device'')
   \<and> ((device c = ''GPU'' \<or> device c = ''CPU'')
        \<and> model c \<in> set (case model_list c of None \<Rightarrow> MODELS env | Some l \<Rightarrow> l)
        \<and> loss c \<notin> set loss_names \<longrightarrow>
      snd (SupervisedTrainer_init env c) = Inl (ValueError ''`loss` not recognized'')
      \<and> contains ''`loss` not recognized'' ''loss'')
   \<and> ((\<exists>evs t. Trainer_init env c = (evs, Inr t))
        \<and> (\<exists>p. patch_size c = Some p \<and> scale c \<noteq> 0 \<and> p mod scale c \<noteq> 0) \<longrightarrow>
      snd (SupervisedTrainer_init env c) =
        Inl (ValueError ''`patch_size` must be divisible by `scale` (remainder must be zero)'')
      \<and> contains ''`patch_size` must be divisible by `scale` (remainder must be zero)''
            ''patch_size''
      \<and> contains ''`patch_size` must be divisible by `scale` (remainder must be zero)''
            ''scale'')
   \<and> ((\<exists>evs t. Trainer_init env c = (evs, Inr t))
        \<and> (\<forall>p. patch_size c = Some p \<longrightarrow> scale c \<noteq> 0 \<and> p mod scale c = 0)
        \<and> time_window c = Some w \<and> model c \<notin> set recmodels \<longrightarrow>
      (\<exists>msg. snd (SupervisedTrainer_init env c) = Inl (ValueError msg)
         \<and> contains msg ''time_window'' \<and> contains msg (str_int w)))
   \<and> ((\<exists>evs t. Trainer_init env c = (evs, Inr t))
        \<and> (\<forall>p. patch_size c = Some p \<longrightarrow> scale c \<noteq> 0 \<and> p mod scale c = 0)
        \<and> time_window c = None \<and> model c \<in> set recmodels \<longrightarrow>
      (\<exists>msg. snd (SupervisedTrainer_init env c) = Inl (ValueError msg)
         \<and> contains msg ''time_window'' \<and> contains msg ''model''
         \<and> contains msg (model c)))"
proof (intro conjI impI)
  assume "device c \<noteq> ''GPU'' \<and> device c \<noteq> ''CPU''"
  then have "snd (Trainer_init env c) = Inl (ValueError ''device not recognized'')"
    by (simp add: Trainer_init_def setup_devices_def bind_ev_def)
  from SupervisedTrainer_init_base_Inl [OF this]
  show "snd (SupervisedTrainer_init env c) = Inl (ValueError ''device not recognized'')"
    by simp
next
  show "contains ''device not recognized'' ''device''" by simp
next
  assume a: "(device c = ''GPU'' \<or> device c = ''CPU'')
        \<and> model c \<in> set (case model_list c of None \<Rightarrow> MODELS env | Some l \<Rightarrow> l)
        \<and> loss c \<notin> set loss_names"
  then have "choose_loss (loss c) = Inl (ValueError ''`loss` not recognized'')"
    by (simp add: choose_loss_unrecognized)
  with a have "snd (Trainer_init env c) = Inl (ValueError ''`loss` not recognized'')"
    by (auto simp: Trainer_init_def setup_devices_def bind_ev_def checkarg_model_def Let_def)
  from SupervisedTrainer_init_base_Inl [OF this]
  show "snd (SupervisedTrainer_init env c) = Inl (ValueError ''`loss` not recognized'')"
    by simp
next
  show "contains ''`loss` not recognized'' ''loss''" by simp
next
  assume a: "(\<exists>evs t. Trainer_init env c = (evs, Inr t))
        \<and> (\<exists>p. patch_size c = Some p \<and> scale c \<noteq> 0 \<and> p mod scale c \<noteq> 0)"
  then obtain evs t where ok: "Trainer_init env c = (evs, Inr t)" by blast
  from a Trainer_init_Inr [OF ok]
  have "check_datagen_args t =
          Inl (ValueError ''`patch_size` must be divisible by `scale` (remainder must be zero)'')"
    by (auto simp: check_datagen_args_def)
  from SupervisedTrainer_init_check_Inl [OF ok this]
  show "snd (SupervisedTrainer_init env c) =
        Inl (ValueError ''`patch_size` must be divisible by `scale` (remainder must be zero)'')"
    by simp
next
  show "contains ''`patch_size` must be divisible by `scale` (remainder must be zero)''
            ''patch_size''" by simp
next
  show "contains ''`patch_size` must be divisible by `scale` (remainder must be zero)''
            ''scale''" by simp
next
  assume a: "(\<exists>evs t. Trainer_init env c = (evs, Inr t))
        \<and> (\<forall>p. patch_size c = Some p \<longrightarrow> scale c \<noteq> 0 \<and> p mod scale c = 0)
        \<and> time_window c = Some w \<and> model c \<notin> set recmodels"
  then obtain evs t where ok: "Trainer_init env c = (evs, Inr t)" by blast
  let ?msg = "''``time_window='' @ str_int w
                   @ ''``, choose a model that handles samples with a temporal dimension''"
  from a Trainer_init_Inr [OF ok]
  have "check_datagen_args t = Inl (ValueError ?msg)"
    by (auto simp: check_datagen_args_def check_time_window_def split: option.splits)
  from SupervisedTrainer_init_check_Inl [OF ok this]
  have 1: "snd (SupervisedTrainer_init env c) = Inl (ValueError ?msg)" by simp
  have 2: "contains ?msg (str_int w)" by (rule contains_append)
  have "contains (''``'' @ ''time_window'' @ (''='' @ str_int w
                   @ ''``, choose a model that handles samples with a temporal dimension''))
          ''time_window''"
    by (rule contains_append)
  then have 3: "contains ?msg ''time_window''" by simp
  from 1 2 3 show "\<exists>msg. snd (SupervisedTrainer_init env c) = Inl (ValueError msg)
         \<and> contains msg ''time_window'' \<and> contains msg (str_int w)"
    by blast
next
  assume a: "(\<exists>evs t. Trainer_init env c = (evs, Inr t))
        \<and> (\<forall>p. patch_size c = Some p \<longrightarrow> scale c \<noteq> 0 \<and> p mod scale c = 0)
        \<and> time_window c = None \<and> model c \<in> set recmodels"
  then obtain evs t where ok: "Trainer_init env c = (evs, Inr t)" by blast
  let ?tail = "''``, the argument ``time_window`` must be a postive integer''"
  let ?msg = "''``model='' @ model c @ ?tail"
  from a Trainer_init_Inr [OF ok]
  have "check_datagen_args t = Inl (ValueError ?msg)"
    by (auto simp: check_datagen_args_def check_time_window_def split: option.splits)
  from SupervisedTrainer_init_check_Inl [OF ok this]
  have 1: "snd (SupervisedTrainer_init env c) = Inl (ValueError ?msg)" by simp
  have 2: "contains ?msg (model c)" by (rule contains_append)
  have "contains (''``'' @ ''model'' @ (''='' @ model c @ ?tail)) ''model''"
    by (rule contains_append)
  then have 3: "contains ?msg ''model''" by simp
  have "contains ?tail ''time_window''" by simp
  from contains_appendI [OF this, of "''``model='' @ model c" "[]"]
  have 4: "contains ?msg ''time_window''" by simp
  from 1 2 3 4 show "\<exists>msg. snd (SupervisedTrainer_init env c) = Inl (ValueError msg)
         \<and> contains msg ''time_window'' \<and> contains msg ''model''
         \<and> contains msg (model c)"
    by blast
qed

theorem error_messages_name_parameter_witness:
  "snd (SupervisedTrainer_init (example_env 0 1)
          ((default_config ''resnet_spc'')\<lparr>device := ''TPU''\<rparr>))
     = Inl (ValueError ''device not recognized'')
   \<and> snd (SupervisedTrainer_init (example_env 0 1)
          ((default_config ''resnet_spc'')\<lparr>loss := ''huber''\<rparr>))
     = Inl (ValueError ''`loss` not recognized'')
   \<and> snd (SupervisedTrainer_init (example_env 0 1)
          ((default_config ''resnet_spc'')\<lparr>scale := 4\<rparr>))
     = Inl (ValueError ''`patch_size` must be divisible by `scale` (remainder must be zero)'')
   \<and> (\<exists>msg. snd (SupervisedTrainer_init (example_env 0 1)
                  ((default_config ''resnet_spc'')\<lparr>time_window := Some 3\<rparr>))
              = Inl (ValueError msg)
            \<and> contains msg ''time_window'' \<and> contains msg ''3'')
   \<and> (\<exists>msg. snd (SupervisedTrainer_init (example_env 0 1)
                  (default_config ''recurrent_resnet_spc''))
              = Inl (ValueError msg)
            \<and> contains msg ''time_window'' \<and> contains msg ''model''
            \<and> contains msg ''recurrent_resnet_spc'')"
proof -
  let ?env = "example_env 0 1"
  have ok: "\<exists>evs t. Trainer_init ?env ((default_config m)\<lparr>scale := s, time_window := w\<rparr>)
               = (evs, Inr t)"
    if "m \<in> set (MODELS ?env)" for m s w
    using Trainer_init_accepts
            [of "(default_config m)\<lparr>scale := s, time_window := w\<rparr>" ?env MeanAbsoluteError] that
    by (auto simp: default_config_def example_env_def choose_loss_def)
  have 1: "snd (SupervisedTrainer_init ?env ((default_config ''resnet_spc'')\<lparr>device := ''TPU''\<rparr>))
     = Inl (ValueError ''device not recognized'')"
    using error_messages_name_parameter
            [of "(default_config ''resnet_spc'')\<lparr>device := ''TPU''\<rparr>" ?env]
    by (simp add: default_config_def)
  have 2: "snd (SupervisedTrainer_init ?env ((default_config ''resnet_spc'')\<lparr>loss := ''huber''\<rparr>))
     = Inl (ValueError ''`loss` not recognized'')"
    using error_messages_name_parameter
            [of "(default_config ''resnet_spc'')\<lparr>loss := ''huber''\<rparr>" ?env]
    by (simp add: default_config_def example_env_def loss_names_def)
  have 3: "snd (SupervisedTrainer_init ?env ((default_config ''resnet_spc'')\<lparr>scale := 4\<rparr>))
     = Inl (ValueError ''`patch_size` must be divisible by `scale` (remainder must be zero)'')"
    using error_messages_name_parameter
            [of "(default_config ''resnet_spc'')\<lparr>scale := 4\<rparr>" ?env]
          ok [where m = "''resnet_spc''" and s = 4 and w = None]
    by (simp add: default_config_def example_env_def)
  have 4: "\<exists>msg. snd (SupervisedTrainer_init ?env
                  ((default_config ''resnet_spc'')\<lparr>time_window := Some 3\<rparr>))
              = Inl (ValueError msg)
            \<and> contains msg ''time_window'' \<and> contains msg ''3''"
    using error_messages_name_parameter
            [of "(default_config ''resnet_spc'')\<lparr>time_window := Some 3\<rparr>" ?env 3]
          ok [where m = "''resnet_spc''" and s = 5 and w = "Some 3"] str_int_3
    by (simp add: default_config_def example_env_def recmodels_def)
  have 5: "\<exists>msg. snd (SupervisedTrainer_init ?env (default_config ''recurrent_resnet_spc''))
              = Inl (ValueError msg)
            \<and> contains msg ''time_window'' \<and> contains msg ''model''
            \<and> contains msg ''recurrent_resnet_spc''"
    using error_messages_name_parameter [of "default_config ''recurrent_resnet_spc''" ?env]
          ok [where m = "''recurrent_resnet_spc''" and s = 5 and w = None]
    by (simp add: default_config_def example_env_def recmodels_def)
  from 1 2 3 4 5 show ?thesis by blast
qed

section \<open>The loops of training_cgan\<close>

lemma train_steps_of_append:
  "train_steps_of (a @ b) = train_steps_of a @ train_steps_of b"
  by (induction a rule: train_steps_of.induct) simp_all

lemma checkpoint_epochs_skip:
  "list_all loop_event a \<Longrightarrow> checkpoint_epochs n (a @ b) = checkpoint_epochs n b"
  by (induction n a rule: checkpoint_epochs.induct) simp_all

lemma sample_loop_ok:
  assumes "generator st \<noteq> None" and "\<forall>i\<in>set idx. i < length x_train"
  shows "\<exists>st'. snd (sample_loop ops x_train e idx st) = Inr st'
           \<and> generator st' \<noteq> None \<and> history st' = history st
           \<and> (idx \<noteq> [] \<or> losses st \<noteq> None \<longrightarrow> losses st' \<noteq> None)
         \<and> train_steps_of (fst (sample_loop ops x_train e idx st)) =
             map (\<lambda>i. (e, i, x_train ! i)) idx
         \<and> list_all loop_event (fst (sample_loop ops x_train e idx st))"
  using assms
proof (induction idx arbitrary: st)
  case Nil
  then show ?case by simp
next
  case (Cons i rest)
  from Cons.prems obtain g where g: "generator st = Some g" by auto
  obtain g' d' summary ls where ts:
    "train_step ops (snd (create_pair_hr_lr ops (x_train ! i)))
       (fst (create_pair_hr_lr ops (x_train ! i))) g (discriminator st) e
     = ((g', d'), summary, ls)"
    by (metis prod.exhaust)
  let ?st1 = "st\<lparr>generator := Some g', discriminator := d', losses := Some ls\<rparr>"
  have step: "sample_loop ops x_train e (i # rest) st =
     bind_ev ((if (int i + 1) mod 100 = 0 then [PrintDot] else []), Inr ()) (\<lambda>_.
       bind_ev ([TrainStep e i (x_train ! i) summary], Inr ?st1)
         (sample_loop ops x_train e rest))"
    using Cons.prems(2) g ts by (simp add: case_prod_beta)
  have "generator ?st1 \<noteq> None" by simp
  moreover have "\<forall>i\<in>set rest. i < length x_train" using Cons.prems(2) by simp
  ultimately obtain st' where
    r: "snd (sample_loop ops x_train e rest ?st1) = Inr st'"
       "generator st' \<noteq> None" "history st' = history ?st1"
       "losses st' \<noteq> None"
       "train_steps_of (fst (sample_loop ops x_train e rest ?st1)) =
             map (\<lambda>i. (e, i, x_train ! i)) rest"
       "list_all loop_event (fst (sample_loop ops x_train e rest ?st1))"
    using Cons.IH [of ?st1] by auto
  show ?case
    unfolding step using r
    by (auto simp: fst_bind_ev snd_bind_ev train_steps_of_append)
qed

lemma n_samples_indices: "[0..<n_samples] \<noteq> []"
  by (simp add: n_samples_def)

lemma periodic_checkpoint_ok:
  assumes "f \<noteq> Some 0" and "f = None \<or> ckpt \<noteq> None"
  shows "\<exists>c. periodic_checkpoint f ckpt e = (c, Inr ())
           \<and> checkpoint_epochs n (c @ T) =
               (case f of None \<Rightarrow> [] | Some k \<Rightarrow> if (e + 1) mod k = 0 then [n] else [])
               @ checkpoint_epochs n T
           \<and> train_steps_of c = []"
  using assms
  by (auto simp: periodic_checkpoint_def checkpoint_save_def split: option.splits)

lemma epoch_loop_unfold:
  assumes "snd (sample_loop ops x_train (int e) [0..<n_samples] st) = Inr st1"
    and "losses st1 = Some ls"
    and "periodic_checkpoint f ckpt (int e) = (c, Inr ())"
  shows "fst (epoch_loop ops x_train f ckpt (e # rest) st) =
           PrintEpoch (int e) # fst (sample_loop ops x_train (int e) [0..<n_samples] st)
             @ PrintLosses ls # c @ PrintTime (int e + 1)
             # fst (epoch_loop ops x_train f ckpt rest (st1\<lparr>history := history st1 @ [ls]\<rparr>))"
    and "snd (epoch_loop ops x_train f ckpt (e # rest) st) =
           snd (epoch_loop ops x_train f ckpt rest (st1\<lparr>history := history st1 @ [ls]\<rparr>))"
  using assms by (simp_all add: fst_bind_ev snd_bind_ev)

lemma epoch_loop_ok:
  fixes ops :: "('t, 'x, 'g, 'd, 'f) tf_ops" and st :: "('t, 'g, 'd) cgan_state"
  assumes "generator st \<noteq> None" and "n_samples \<le> length x_train"
    and "f \<noteq> Some 0" and "f = None \<or> ckpt \<noteq> None"
  shows "\<exists>st'. snd (epoch_loop ops x_train f ckpt es st) = Inr st' \<and> generator st' \<noteq> None"
    and "train_steps_of (fst (epoch_loop ops x_train f ckpt es st)) = expected_steps x_train es"
    and "checkpoint_epochs n (fst (epoch_loop ops x_train f ckpt es st) @ T) =
           expected_checkpoints f es
           @ checkpoint_epochs (if es = [] then n else int (last es) + 1) T"
  using assms(1)
proof (induction es arbitrary: st n)
  case Nil
  {
    case 1 then show ?case by simp
  next
    case 2 then show ?case by (simp add: expected_steps_def)
  next
    case 3 then show ?case by (simp add: expected_checkpoints_def split: option.splits)
  }
next
  case (Cons e rest)
  have idx: "\<forall>i\<in>set [0..<n_samples]. i < length x_train" using assms(2) by simp
  {
    fix st :: "('t, 'g, 'd) cgan_state" and n
    assume gen: "generator st \<noteq> None"
    from sample_loop_ok [OF gen idx, of ops "int e"] n_samples_indices
    obtain st1 ls where s:
      "snd (sample_loop ops x_train (int e) [0..<n_samples] st) = Inr st1"
      "generator st1 \<noteq> None" "losses st1 = Some ls"
      "train_steps_of (fst (sample_loop ops x_train (int e) [0..<n_samples] st)) =
             map (\<lambda>i. (int e, i, x_train ! i)) [0..<n_samples]"
      "list_all loop_event (fst (sample_loop ops x_train (int e) [0..<n_samples] st))"
      by auto
    let ?st2 = "st1\<lparr>history := history st1 @ [ls]\<rparr>"
    let ?R = "fst (epoch_loop ops x_train f ckpt rest ?st2)"
    let ?T' = "PrintTime (int e + 1) # ?R @ T"
    from periodic_checkpoint_ok [OF assms(3,4), of "int e" "int e + 1" ?T']
    obtain c where c: "periodic_checkpoint f ckpt (int e) = (c, Inr ())"
      "checkpoint_epochs (int e + 1) (c @ ?T') =
               (case f of None \<Rightarrow> [] | Some k \<Rightarrow> if (int e + 1) mod k = 0 then [int e + 1] else [])
               @ checkpoint_epochs (int e + 1) ?T'"
      "train_steps_of c = []"
      by blast
    note u = epoch_loop_unfold [OF s(1) s(3) c(1), of rest]
    have g2: "generator ?st2 \<noteq> None" using s(2) by simp
    have "\<exists>st'. snd (epoch_loop ops x_train f ckpt (e # rest) st) = Inr st'
            \<and> generator st' \<noteq> None"
      unfolding u(2) using Cons.IH(1) [OF g2] .
    moreover have "train_steps_of (fst (epoch_loop ops x_train f ckpt (e # rest) st)) =
        expected_steps x_train (e # rest)"
      unfolding u(1) using Cons.IH(2) [OF g2] s(4) c(3)
      by (simp add: train_steps_of_append expected_steps_def)
    moreover have "checkpoint_epochs n (fst (epoch_loop ops x_train f ckpt (e # rest) st) @ T) =
           expected_checkpoints f (e # rest)
           @ checkpoint_epochs (if e # rest = [] then n else int (last (e # rest)) + 1) T"
    proof -
      have "checkpoint_epochs n (fst (epoch_loop ops x_train f ckpt (e # rest) st) @ T) =
          checkpoint_epochs (int e + 1)
            (fst (sample_loop ops x_train (int e) [0..<n_samples] st)
               @ (PrintLosses ls # c @ ?T'))"
        unfolding u(1) by simp
      also have "\<dots> = checkpoint_epochs (int e + 1) (PrintLosses ls # c @ ?T')"
        by (rule checkpoint_epochs_skip [OF s(5)])
      also have "\<dots> = checkpoint_epochs (int e + 1) (c @ ?T')" by simp
      also have "\<dots> = (case f of None \<Rightarrow> []
                        | Some k \<Rightarrow> if (int e + 1) mod k = 0 then [int e + 1] else [])
               @ checkpoint_epochs (int e + 1) (?R @ T)"
        unfolding c(2) by simp
      also have "checkpoint_epochs (int e + 1) (?R @ T) =
           expected_checkpoints f rest
           @ checkpoint_epochs (if rest = [] then int e + 1 else int (last rest) + 1) T"
        by (rule Cons.IH(3) [OF g2])
      finally show ?thesis
        by (simp add: expected_checkpoints_def split: option.splits)
    qed
    ultimately have "(\<exists>st'. snd (epoch_loop ops x_train f ckpt (e # rest) st) = Inr st'
            \<and> generator st' \<noteq> None)
      \<and> train_steps_of (fst (epoch_loop ops x_train f ckpt (e # rest) st)) =
        expected_steps x_train (e # rest)
      \<and> checkpoint_epochs n (fst (epoch_loop ops x_train f ckpt (e # rest) st) @ T) =
           expected_checkpoints f (e # rest)
           @ checkpoint_epochs (if e # rest = [] then n else int (last (e # rest)) + 1) T"
      by blast
  }
  note step = this
  {
    case 1 then show ?case using step by blast
  next
    case 2 then show ?case using step by blast
  next
    case 3 then show ?case using step by blast
  }
qed

lemma epoch_loop_zero:
  fixes ops :: "('t, 'x, 'g, 'd, 'f) tf_ops" and st :: "('t, 'g, 'd) cgan_state"
  assumes "generator st \<noteq> None" and "n_samples \<le> length x_train"
  shows "snd (epoch_loop ops x_train (Some 0) ckpt (e # rest) st) = Inl ZeroDivisionError"
    and "train_steps_of (fst (epoch_loop ops x_train (Some 0) ckpt (e # rest) st)) =
           map (\<lambda>i. (int e, i, x_train ! i)) [0..<n_samples]"
    and "checkpoint_epochs n (fst (epoch_loop ops x_train (Some 0) ckpt (e # rest) st)) = []"
proof -
  have idx: "\<forall>i\<in>set [0..<n_samples]. i < length x_train" using assms(2) by simp
  from sample_loop_ok [OF assms(1) idx, of ops "int e"] n_samples_indices
  obtain st1 ls where s:
    "snd (sample_loop ops x_train (int e) [0..<n_samples] st) = Inr st1"
    "losses st1 = Some ls"
    "train_steps_of (fst (sample_loop ops x_train (int e) [0..<n_samples] st)) =
           map (\<lambda>i. (int e, i, x_train ! i)) [0..<n_samples]"
    "list_all loop_event (fst (sample_loop ops x_train (int e) [0..<n_samples] st))"
    by auto
  have tr: "fst (epoch_loop ops x_train (Some 0) ckpt (e # rest) st) =
      PrintEpoch (int e) # fst (sample_loop ops x_train (int e) [0..<n_samples] st)
        @ [PrintLosses ls]"
    using s(1,2) by (simp add: fst_bind_ev snd_bind_ev periodic_checkpoint_def)
  show "snd (epoch_loop ops x_train (Some 0) ckpt (e # rest) st) = Inl ZeroDivisionError"
    using s(1,2) by (simp add: fst_bind_ev snd_bind_ev periodic_checkpoint_def)
  show "train_steps_of (fst (epoch_loop ops x_train (Some 0) ckpt (e # rest) st)) =
           map (\<lambda>i. (int e, i, x_train ! i)) [0..<n_samples]"
    unfolding tr using s(3) by (simp add: train_steps_of_append)
  show "checkpoint_epochs n (fst (epoch_loop ops x_train (Some 0) ckpt (e # rest) st)) = []"
    unfolding tr using checkpoint_epochs_skip [OF s(4), of "int e + 1" "[PrintLosses ls]"]
    by simp
qed

lemma training_cgan_unfold:
  fixes ops :: "('t, 'x, 'g, 'd, 'f) tf_ops"
  assumes "model_name = ''rspc'' \<or> model_name = ''rint''"
  shows "fst (training_cgan ops x_train n_epochs model_name tg lg f) =
           [CreateFileWriter, BuildGenerator model_name (1 + bool_int tg + bool_int lg),
            BuildDiscriminator (1 + bool_int tg + bool_int lg)]
           @ fst (training_loop ops x_train n_epochs model_name tg lg f)
           @ (case snd (training_loop ops x_train n_epochs model_name tg lg f) of
                Inl e \<Rightarrow> []
              | Inr st \<Rightarrow>
                  (case f of
                     None \<Rightarrow> []
                   | Some k \<Rightarrow> [CheckpointSave checkpoint_prefix tracked_objects,
                                SaveLosses (history st), Runtime]))"
    and "snd (training_cgan ops x_train n_epochs model_name tg lg f) =
           (case snd (training_loop ops x_train n_epochs model_name tg lg f) of
              Inl e \<Rightarrow> Inl e
            | Inr st \<Rightarrow>
                (case f of
                   None \<Rightarrow> Inl (UnboundLocalError ''checkpoint'')
                 | Some k \<Rightarrow>
                     (case generator st of
                        None \<Rightarrow> Inl (UnboundLocalError ''generator'')
                      | Some g \<Rightarrow> Inr g)))"
proof -
  have gen: "(if model_name = ''rspc'' then Some (rspc ops n)
              else if model_name = ''rint'' then Some (rint ops n) else None) \<noteq> None" for n
    using assms(1) by auto
  show "fst (training_cgan ops x_train n_epochs model_name tg lg f) =
           [CreateFileWriter, BuildGenerator model_name (1 + bool_int tg + bool_int lg),
            BuildDiscriminator (1 + bool_int tg + bool_int lg)]
           @ fst (training_loop ops x_train n_epochs model_name tg lg f)
           @ (case snd (training_loop ops x_train n_epochs model_name tg lg f) of
                Inl e \<Rightarrow> []
              | Inr st \<Rightarrow>
                  (case f of
                     None \<Rightarrow> []
                   | Some k \<Rightarrow> [CheckpointSave checkpoint_prefix tracked_objects,
                                SaveLosses (history st), Runtime]))"
    unfolding training_loop_def
    by (cases f)
       (simp_all add: training_cgan_def initial_state_def tracked_objects_def Let_def gen
          fst_bind_ev snd_bind_ev checkpoint_save_def split: sum.splits option.splits)
  show "snd (training_cgan ops x_train n_epochs model_name tg lg f) =
           (case snd (training_loop ops x_train n_epochs model_name tg lg f) of
              Inl e \<Rightarrow> Inl e
            | Inr st \<Rightarrow>
                (case f of
                   None \<Rightarrow> Inl (UnboundLocalError ''checkpoint'')
                 | Some k \<Rightarrow>
                     (case generator st of
                        None \<Rightarrow> Inl (UnboundLocalError ''generator'')
                      | Some g \<Rightarrow> Inr g)))"
    unfolding training_loop_def
    by (cases f)
       (simp_all add: training_cgan_def initial_state_def tracked_objects_def Let_def gen
          fst_bind_ev snd_bind_ev checkpoint_save_def split: sum.splits option.splits)
qed

lemma initial_state_generator:
  "model_name = ''rspc'' \<or> model_name = ''rint'' \<Longrightarrow>
     generator (initial_state ops model_name tg lg) \<noteq> None"
  by (auto simp: initial_state_def Let_def)

lemma training_cgan_disabled:
  fixes ops :: "('t, 'x, 'g, 'd, 'f) tf_ops"
  assumes "n_samples \<le> length x_train" and "model_name = ''rspc'' \<or> model_name = ''rint''"
  shows "snd (training_cgan ops x_train n_epochs model_name tg lg None) =
           Inl (UnboundLocalError ''checkpoint'')"
    and "checkpoint_epochs 0 (fst (training_cgan ops x_train n_epochs model_name tg lg None)) = []"
proof -
  note g = initial_state_generator [OF assms(2), of ops tg lg]
  have ok: "\<exists>st'. snd (training_loop ops x_train n_epochs model_name tg lg None) = Inr st'"
    unfolding training_loop_def
    using epoch_loop_ok(1) [OF g assms(1), of None None ops "[0..<nat n_epochs]"] by auto
  then show "snd (training_cgan ops x_train n_epochs model_name tg lg None) =
           Inl (UnboundLocalError ''checkpoint'')"
    by (auto simp: training_cgan_unfold(2) [OF assms(2)])
  have "checkpoint_epochs 0 (fst (training_loop ops x_train n_epochs model_name tg lg None) @ [])
          = []"
    unfolding training_loop_def
    using epoch_loop_ok(3) [OF g assms(1), of None None 0 ops "[0..<nat n_epochs]" "[]"]
    by (simp add: expected_checkpoints_def)
  then show "checkpoint_epochs 0
               (fst (training_cgan ops x_train n_epochs model_name tg lg None)) = []"
    using ok by (auto simp: training_cgan_unfold(1) [OF assms(2)])
qed

text \<open>With a frequency that is not zero the run returns, and these are its checkpoints.\<close>

lemma training_cgan_checkpoints:
  fixes ops :: "('t, 'x, 'g, 'd, 'f) tf_ops"
  assumes "n_samples \<le> length x_train" and "model_name = ''rspc'' \<or> model_name = ''rint''"
    and "k \<noteq> 0"
  shows "\<exists>g. snd (training_cgan ops x_train n_epochs model_name tg lg (Some k)) = Inr g"
    and "checkpoint_epochs 0 (fst (training_cgan ops x_train n_epochs model_name tg lg (Some k)))
           = map (\<lambda>e. int e + 1) (filter (\<lambda>e. (int e + 1) mod k = 0) [0..<nat n_epochs])
             @ [int (nat n_epochs)]"
proof -
  note g = initial_state_generator [OF assms(2), of ops tg lg]
  have f0: "Some k \<noteq> Some 0" using assms(3) by simp
  have ck: "Some k = None \<or> Some tracked_objects \<noteq> None" by simp
  from epoch_loop_ok(1) [OF g assms(1) f0 ck, of ops "[0..<nat n_epochs]"]
  obtain st' where st': "snd (training_loop ops x_train n_epochs model_name tg lg (Some k)) = Inr st'"
    "generator st' \<noteq> None"
    unfolding training_loop_def by auto
  then show "\<exists>g. snd (training_cgan ops x_train n_epochs model_name tg lg (Some k)) = Inr g"
    by (auto simp: training_cgan_unfold(2) [OF assms(2)])
  let ?T = "[CheckpointSave checkpoint_prefix tracked_objects, SaveLosses (history st'), Runtime]"
  have last: "(if [0..<nat n_epochs] = [] then 0 else int (last [0..<nat n_epochs]) + 1)
                = int (nat n_epochs)"
    by (cases "nat n_epochs") simp_all
  have "checkpoint_epochs 0 (fst (training_loop ops x_train n_epochs model_name tg lg (Some k)) @ ?T)
          = expected_checkpoints (Some k) [0..<nat n_epochs]
            @ checkpoint_epochs (int (nat n_epochs)) ?T"
    unfolding training_loop_def
    using epoch_loop_ok(3) [OF g assms(1) f0 ck, of 0 ops "[0..<nat n_epochs]" ?T]
    unfolding last by simp
  then show "checkpoint_epochs 0
               (fst (training_cgan ops x_train n_epochs model_name tg lg (Some k)))
           = map (\<lambda>e. int e + 1) (filter (\<lambda>e. (int e + 1) mod k = 0) [0..<nat n_epochs])
             @ [int (nat n_epochs)]"
    using st'(1)
    by (simp add: training_cgan_unfold(1) [OF assms(2)] expected_checkpoints_def)
qed

lemma checkpoints_example:
  "checkpoint_epochs 0 (fst (training_cgan example_ops [0..<10] 12 ''rspc'' False False (Some 5)))
     = [5, 10, 12]"
proof -
  have rhs: "map (\<lambda>e. int e + 1) (filter (\<lambda>e. (int e + 1) mod 5 = 0) [0..<nat 12])
             @ [int (nat 12)] = [5, 10, 12]"
    by code_simp
  from training_cgan_checkpoints(2) [of "[0..<10]" "''rspc''" 5 example_ops 12 False False]
  show ?thesis unfolding rhs by (simp add: n_samples_def)
qed

text \<open>The calls of \<open>train_step\<close> with one of the two generators.\<close>

lemma training_cgan_steps_supported:
  fixes ops :: "('t, 'x, 'g, 'd, 'f) tf_ops"
  assumes "10 \<le> length x_train" and "model_name = ''rspc'' \<or> model_name = ''rint''"
  shows "train_steps_of (fst (training_cgan ops x_train n_epochs model_name tg lg f)) =
           concat (map (\<lambda>epoch. map (\<lambda>i. (int epoch, i, x_train ! i)) [0..<10])
                    [0..<(if f = Some 0 then min 1 (nat n_epochs) else nat n_epochs)])"
proof -
  from assms(1) have len: "n_samples \<le> length x_train" by (simp add: n_samples_def)
  note g = initial_state_generator [OF assms(2), of ops tg lg]
  let ?L = "training_loop ops x_train n_epochs model_name tg lg f"
  have tail: "train_steps_of (case snd ?L of
                Inl e \<Rightarrow> []
              | Inr st \<Rightarrow>
                  (case f of
                     None \<Rightarrow> []
                   | Some k \<Rightarrow> [CheckpointSave checkpoint_prefix tracked_objects,
                                SaveLosses (history st), Runtime])) = []"
    by (simp split: sum.splits option.splits)
  have whole: "train_steps_of (fst (training_cgan ops x_train n_epochs model_name tg lg f)) =
      train_steps_of (fst ?L)"
    unfolding training_cgan_unfold(1) [OF assms(2)] train_steps_of_append tail by simp
  show ?thesis
  proof (cases "f = Some 0")
    case False
    have ck: "f = None \<or> (case f of None \<Rightarrow> None | Some k \<Rightarrow> Some tracked_objects) \<noteq> None"
      by (cases f) simp_all
    from epoch_loop_ok(2) [OF g len False ck, of ops "[0..<nat n_epochs]"] False
    show ?thesis
      unfolding whole training_loop_def by (simp add: expected_steps_def n_samples_def)
  next
    case True
    show ?thesis
    proof (cases "nat n_epochs")
      case 0
      with True show ?thesis unfolding whole training_loop_def by simp
    next
      case (Suc m)
      then have es: "[0..<nat n_epochs] = 0 # [Suc 0..<nat n_epochs]"
        by (simp add: upt_conv_Cons del: upt_Suc)
      from Suc have m1: "min (Suc 0) (nat n_epochs) = Suc 0" by simp
      have L: "?L = epoch_loop ops x_train (Some 0) (Some tracked_objects)
                      (0 # [Suc 0..<nat n_epochs]) (initial_state ops model_name tg lg)"
        unfolding training_loop_def True es [symmetric] by simp
      have "train_steps_of (fst ?L) = map (\<lambda>i. (int 0, i, x_train ! i)) [0..<n_samples]"
        unfolding L by (rule epoch_loop_zero(2) [OF g len])
      then show ?thesis
        unfolding whole by (simp add: True m1 n_samples_def)
    qed
  qed
qed

text \<open>
  With any other name \<open>generator\<close> stays unbound, and no call of \<open>train_step\<close> is made.
\<close>

lemma sample_loop_unbound:
  fixes ops :: "('t, 'x, 'g, 'd, 'f) tf_ops" and st :: "('t, 'g, 'd) cgan_state"
  assumes "generator st = None"
  shows "train_steps_of (fst (sample_loop ops x_train e idx st)) = []"
    and "idx \<noteq> [] \<Longrightarrow> \<exists>err. snd (sample_loop ops x_train e idx st) = Inl err"
  using assms
  by (cases idx; simp add: fst_bind_ev snd_bind_ev)+

lemma epoch_loop_unbound:
  fixes ops :: "('t, 'x, 'g, 'd, 'f) tf_ops" and st :: "('t, 'g, 'd) cgan_state"
  assumes "generator st = None"
  shows "train_steps_of (fst (epoch_loop ops x_train f ckpt es st)) = []"
proof (cases es)
  case Nil
  then show ?thesis by simp
next
  case (Cons e rest)
  from sample_loop_unbound(2) [OF assms n_samples_indices, of ops x_train "int e"]
  obtain err where err: "snd (sample_loop ops x_train (int e) [0..<n_samples] st) = Inl err"
    by blast
  have "fst (epoch_loop ops x_train f ckpt (e # rest) st) =
          PrintEpoch (int e) # fst (sample_loop ops x_train (int e) [0..<n_samples] st)"
    using err by (simp add: fst_bind_ev snd_bind_ev)
  with sample_loop_unbound(1) [OF assms, of ops x_train "int e" "[0..<n_samples]"] Cons
  show ?thesis by simp
qed

lemma training_cgan_unsupported:
  fixes ops :: "('t, 'x, 'g, 'd, 'f) tf_ops"
  assumes "\<not> (model_name = ''rspc'' \<or> model_name = ''rint'')"
  shows "train_steps_of (fst (training_cgan ops x_train n_epochs model_name tg lg f)) = []"
proof (cases f)
  case (Some k)
  with assms show ?thesis
    by (simp add: training_cgan_def Let_def fst_bind_ev snd_bind_ev)
next
  case None
  let ?st0 = "initial_state ops model_name tg lg"
  have g: "generator ?st0 = None" using assms by (simp add: initial_state_def Let_def)
  have tr: "fst (training_cgan ops x_train n_epochs model_name tg lg None) =
      [CreateFileWriter, BuildDiscriminator (1 + bool_int tg + bool_int lg)]
      @ fst (epoch_loop ops x_train None None [0..<nat n_epochs] ?st0)"
    using assms
    by (simp add: training_cgan_def initial_state_def Let_def fst_bind_ev snd_bind_ev
        checkpoint_save_def split: sum.splits)
  show ?thesis
    unfolding None tr train_steps_of_append
    using epoch_loop_unbound [OF g, of ops x_train None None "[0..<nat n_epochs]"] by simp
qed

section \<open>Claims on the adversarial trainer\<close>

text \<open>
  C8.  \<open>generator_loss\<close> returns as total loss the binary cross-entropy of the
  discriminator's verdict against a target of ones, plus \<open>lambda_scaling_factor\<close> times
  the mean of the absolute difference of target and generated image; the default of
  \<open>lambda_scaling_factor\<close> is 100, and the generator loss that \<open>train_step\<close> returns is
  computed with it, on the generator's output and the discriminator's verdict on it.
\<close>

theorem generator_loss_formula:
  "generator_loss ops d g t lam =
     (tf_add ops (binary_crossentropy ops (ones_like ops d) d)
        (number_times ops lam (reduce_mean ops (tf_abs ops (tf_sub ops t g)))),
      binary_crossentropy ops (ones_like ops d) d,
      reduce_mean ops (tf_abs ops (tf_sub ops t g)))
   \<and> (lambda_scaling_factor_default :: 'f number) = PyInt 100
   \<and> snd (snd (train_step ops lr hr gen disc epoch)) =
       (let lr' = cast_newaxis ops lr;
            hr' = cast_newaxis ops hr;
            g' = generator_call ops gen lr';
            d' = discriminator_call ops disc lr' g';
            (total, gan, l1) = generator_loss ops d' g' hr' (PyInt 100)
        in (total, gan, l1,
            discriminator_loss ops (discriminator_call ops disc lr' hr') d'))"
  for ops :: "('t, 'x, 'g, 'd, 'f) tf_ops"
  by (simp add: generator_loss_def train_step_def Let_def lambda_scaling_factor_default_def)

text \<open>
  C10, as stated, fails for a model name that is neither \<open>rspc\<close> nor \<open>rint\<close>: with ten
  samples and no checkpoints, the first epoch begins and ends in UnboundLocalError
  without a single call of \<open>train_step\<close>.
\<close>

theorem unsupported_model_epoch_without_steps:
  "training_cgan example_ops [0..<10] 1 ''other'' True False None =
     ([CreateFileWriter, BuildDiscriminator 2, PrintEpoch 0],
      Inl (UnboundLocalError ''generator''))"
  by (simp add: training_cgan_def example_ops_def bool_int_def Let_def bind_ev_def
      n_samples_def upt_conv_Cons)

text \<open>
  C10, amended.  When \<open>x_train\<close> holds at least 10 samples and \<open>model\<close> is \<open>rspc\<close> or
  \<open>rint\<close>, the calls of \<open>train_step\<close> of a run are, for each epoch executed, exactly
  10, on the samples of index 0 to 9 in order, whatever the length of \<open>x_train\<close>; all
  the epochs are executed, except that a frequency of zero ends the run in the first.
  With any other model name the run makes no call of \<open>train_step\<close>.
\<close>

theorem training_cgan_ten_steps_per_epoch:
  fixes ops :: "('t, 'x, 'g, 'd, 'f) tf_ops"
  assumes "10 \<le> length x_train"
  shows "train_steps_of (fst (training_cgan ops x_train n_epochs model_name tg lg f)) =
           concat (map (\<lambda>epoch. map (\<lambda>i. (int epoch, i, x_train ! i)) [0..<10])
                    [0..<(if model_name = ''rspc'' \<or> model_name = ''rint''
                          then (if f = Some 0 then min 1 (nat n_epochs) else nat n_epochs)
                          else 0)])"
proof (cases "model_name = ''rspc'' \<or> model_name = ''rint''")
  case True
  from training_cgan_steps_supported [OF assms True, of ops n_epochs tg lg f]
  show ?thesis by (simp only: True if_True)
next
  case False
  from training_cgan_unsupported [OF False, of ops x_train n_epochs tg lg f]
  show ?thesis by (simp only: False if_False upt_0 list.map concat.simps)
qed

theorem training_cgan_ten_steps_per_epoch_witness:
  "10 \<le> length [0..<12::nat]
   \<and> train_steps_of (fst (training_cgan example_ops [0..<12] 2 ''rspc'' False False (Some 5))) =
       map (\<lambda>i. (0, i, i)) [0..<10] @ map (\<lambda>i. (1, i, i)) [0..<10]
   \<and> train_steps_of (fst (training_cgan example_ops [0..<12] 2 ''other'' False False (Some 5))) =
       []"
proof -
  have len: "10 \<le> length [0..<12::nat]" by simp
  have rhs: "concat (map (\<lambda>epoch. map (\<lambda>i. (int epoch, i, [0..<12::nat] ! i)) [0..<10])
                      [0..<2]) =
             map (\<lambda>i. (0, i, i)) [0..<10] @ map (\<lambda>i. (1, i, i)) [0..<10]"
    by code_simp
  have 1: "train_steps_of
             (fst (training_cgan example_ops [0..<12] 2 ''rspc'' False False (Some 5))) =
           map (\<lambda>i. (0, i, i)) [0..<10] @ map (\<lambda>i. (1, i, i)) [0..<10]"
    using training_cgan_ten_steps_per_epoch
            [OF len, where ops = example_ops and n_epochs = 2 and model_name = "''rspc''"
               and tg = False and lg = False and f = "Some 5"] rhs
    by simp
  have 2: "train_steps_of
             (fst (training_cgan example_ops [0..<12] 2 ''other'' False False (Some 5))) = []"
    using training_cgan_ten_steps_per_epoch
            [OF len, where ops = example_ops and n_epochs = 2 and model_name = "''other''"
               and tg = False and lg = False and f = "Some 5"]
    by simp
  from len 1 2 show ?thesis by blast
qed

text \<open>
  C1.  The claim fails on the code when \<open>checkpoints_frequency\<close> is None: the Checkpoint
  object is created only when the frequency is given, so the save after the loop reads
  an unbound local variable, and the run ends in UnboundLocalError without any checkpoint.
  Here with ten samples and one epoch.
\<close>

theorem checkpoint_disabled_final_save_raises:
  "snd (training_cgan example_ops [0..<10] 1 ''rspc'' False False None)
     = Inl (UnboundLocalError ''checkpoint'')
   \<and> checkpoint_epochs 0 (fst (training_cgan example_ops [0..<10] 1 ''rspc'' False False None))
     = []"
  using training_cgan_disabled [of "[0..<10]" "''rspc''" example_ops 1 False False]
  by (simp add: n_samples_def)

end
